theory Spec2Isabelle
  imports Main
begin

section \<open>Values, errors and statuses\<close>

text \<open>
  The node configuration is a dictionary loaded from a YAML document. Its values are the
  values YAML yields in Python: \<open>None\<close>, booleans, integers, strings, lists and nested
  dictionaries. A dictionary is an association list, in insertion order.
\<close>

datatype yaml =
    YNone
  | YBool bool
  | YInt int
  | YStr string
  | YList "yaml list"
  | YDict "(string \<times> yaml) list"

text \<open>Python's truth value of an object, as \<^verbatim>\<open>if x:\<close> and \<^verbatim>\<open>not x\<close> test it.\<close>

fun truthy :: "yaml \<Rightarrow> bool" where
  "truthy YNone = False"
| "truthy (YBool b) = b"
| "truthy (YInt i) = (i \<noteq> 0)"
| "truthy (YStr s) = (s \<noteq> [])"
| "truthy (YList xs) = (xs \<noteq> [])"
| "truthy (YDict kvs) = (kvs \<noteq> [])"

text \<open>
  Every exception the modelled code raises or lets through. \<open>Exception\<close> carries the
  message of a plain \<^verbatim>\<open>raise Exception(msg)\<close>.
\<close>

datatype error =
    StepLogNotFoundError
  | BranchLogNotFoundError
  | RunLogNotFoundError
  | NodeNotFoundError
  | KeyError string
  | TypeError
  | ValueError
  | AttributeError
  | NotImplementedError
  | Exception string

text \<open>
  Modelled from the spec: the module \<^verbatim>\<open>defaults\<close> is not among the sources. The
  statuses are those of the data model (\<open>PROCESSING\<close>, \<open>SUCCESS\<close>, \<open>FAIL\<close>, \<open>TRIGGERED\<close>),
  and the map placeholder is the character \<^verbatim>\<open>%\<close>.
\<close>

datatype status = PROCESSING | SUCCESS | FAIL | TRIGGERED

definition MAP_PLACEHOLDER :: char where
  "MAP_PLACEHOLDER = CHR ''%''"

section \<open>Nodes\<close>

text \<open>
  \<^verbatim>\<open>BaseNode.__init__\<close> stores its arguments. The internal branch name of a node at
  the root of the pipeline is the empty string.
\<close>

record node =
  name :: string
  internal_name :: string
  internal_branch_name :: string
  node_type :: string
  config :: "(string \<times> yaml) list"

text \<open>
  \<^verbatim>\<open>get_max_attempts\<close>:
  \<^verbatim>\<open>
    if 'retry' in self.config:
        retry = int(self.config['retry']) or 1
        return retry
    return 1
  \<close>
  The builtin \<^verbatim>\<open>int\<close> is a parameter \<open>py_int\<close>: it returns the integer or raises.
\<close>

definition get_max_attempts :: "(yaml \<Rightarrow> error + int) \<Rightarrow> node \<Rightarrow> error + int" where
  "get_max_attempts py_int n =
     (case map_of (config n) ''retry'' of
        Some v \<Rightarrow>
          (case py_int v of
             Inl e \<Rightarrow> Inl e
           | Inr retry \<Rightarrow> Inr (if retry \<noteq> 0 then retry else 1))
      | None \<Rightarrow> Inr 1)"

text \<open>
  The builtin \<^verbatim>\<open>int\<close> on the values that need no parsing: an integer is itself, a
  boolean is 0 or 1, \<open>None\<close>, lists and dictionaries raise \<open>TypeError\<close>. Strings are
  left to the parameter \<open>parse\<close>.
\<close>

fun py_int_with :: "(string \<Rightarrow> error + int) \<Rightarrow> yaml \<Rightarrow> error + int" where
  "py_int_with parse (YInt i) = Inr i"
| "py_int_with parse (YBool b) = Inr (if b then 1 else 0)"
| "py_int_with parse (YStr s) = parse s"
| "py_int_with parse YNone = Inl TypeError"
| "py_int_with parse (YList xs) = Inl TypeError"
| "py_int_with parse (YDict kvs) = Inl TypeError"

text \<open>
  \<^verbatim>\<open>str.replace(old, new, 1)\<close> for a pattern \<open>old\<close> of one character: the leftmost
  occurrence is replaced, and a string without the character is returned as it is.
\<close>

fun replace_first :: "char \<Rightarrow> string \<Rightarrow> string \<Rightarrow> string" where
  "replace_first c new [] = []"
| "replace_first c new (x # xs) = (if x = c then new @ xs else x # replace_first c new xs)"

text \<open>
  \<^verbatim>\<open>resolve_map_placeholders\<close>:
  \<^verbatim>\<open>
    if not map_variable:
        return name
    for _, value in map_variable.items():
        name = name.replace(defaults.MAP_PLACEHOLDER, value, 1)
    return name
  \<close>
  The map variable is an ordered dictionary from variable names to iteration values;
  \<open>None\<close> and the empty dictionary are both the empty list. \<^verbatim>\<open>str.replace\<close>
  raises \<open>TypeError\<close> when the replacement is not a string.
\<close>

type_synonym map_variable = "(string \<times> yaml) list"

fun resolve_map_placeholders :: "string \<Rightarrow> map_variable \<Rightarrow> error + string" where
  "resolve_map_placeholders nm [] = Inr nm"
| "resolve_map_placeholders nm ((k, v) # map_variable) =
     (case v of
        YStr s \<Rightarrow> resolve_map_placeholders (replace_first MAP_PLACEHOLDER s nm) map_variable
      | _ \<Rightarrow> Inl TypeError)"

definition get_step_log_name :: "node \<Rightarrow> map_variable \<Rightarrow> error + string" where
  "get_step_log_name n map_variable = resolve_map_placeholders (internal_name n) map_variable"

definition get_branch_log_name :: "node \<Rightarrow> map_variable \<Rightarrow> error + string" where
  "get_branch_log_name n map_variable =
     resolve_map_placeholders (internal_branch_name n) map_variable"

text \<open>
  \<^verbatim>\<open>get_on_failure_node\<close>, \<^verbatim>\<open>is_terminal_node\<close> and \<^verbatim>\<open>get_next_node\<close>; Python's
  \<open>None\<close> is \<open>YNone\<close>.
\<close>

definition get_on_failure_node :: "node \<Rightarrow> yaml" where
  "get_on_failure_node n =
     (case map_of (config n) ''on_failure'' of Some v \<Rightarrow> v | None \<Rightarrow> YNone)"

definition is_terminal_node :: "node \<Rightarrow> bool" where
  "is_terminal_node n = (map_of (config n) ''next'' = None)"

definition get_next_node :: "node \<Rightarrow> yaml" where
  "get_next_node n =
     (if \<not> is_terminal_node n
      then (case map_of (config n) ''next'' of Some v \<Rightarrow> v | None \<Rightarrow> YNone)
      else YNone)"

section \<open>Run Log Store\<close>

text \<open>
  Modelled from the spec: the module \<^verbatim>\<open>datastore\<close> (the logs and the Run Log Store) is
  not among the sources. The logs carry the attributes of the data model that the
  modelled code reads or writes; times and durations are left out. The code writes the
  attempt counter to an attribute spelled \<open>attempt_numner\<close>.
\<close>

record attempt_log =
  attempt_numner :: int
  attempt_status :: status

record step_log =
  step_name :: string
  step_internal_name :: string
  step_type :: string
  step_status :: status
  mock :: bool
  step_message :: string
  attempts :: "attempt_log list"
  user_defined_metrics :: "string \<rightharpoonup> yaml"
  code_identities :: "string list"
  data_catalogs :: "string list"

record branch_log =
  branch_internal_name :: string
  branch_status :: status

record run_log =
  run_id :: string
  dag_hash :: string
  run_status :: status
  parameters :: "string \<rightharpoonup> yaml"
  steps :: "step_log list"
  branches :: "branch_log list"

text \<open>
  Modelled from the spec: the store is a key/value-like abstraction holding one Run Log per
  run id; a Run Log owns its Step Logs and Branch Logs, each found by its effective
  name. A lookup that misses fails with \<open>RunLogNotFound\<close>, \<open>StepLogNotFound\<close> or
  \<open>BranchNotFound\<close> (section 7 of the spec). The \<open>create_\<close> operations build a log and
  do not store it; the \<open>add_\<close> and \<open>put_\<close> operations store it, in place of the log
  of the same name if there is one.
\<close>

fun upsert :: "('a \<Rightarrow> string) \<Rightarrow> 'a \<Rightarrow> 'a list \<Rightarrow> 'a list" where
  "upsert key x [] = [x]"
| "upsert key x (y # ys) = (if key y = key x then x # ys else y # upsert key x ys)"

type_synonym run_log_store = "run_log list"

definition get_run_log_by_id :: "run_log_store \<Rightarrow> string \<Rightarrow> error + run_log" where
  "get_run_log_by_id store rid =
     (case find (\<lambda>rl. run_id rl = rid) store of
        None \<Rightarrow> Inl RunLogNotFoundError
      | Some rl \<Rightarrow> Inr rl)"

definition put_run_log :: "run_log_store \<Rightarrow> run_log \<Rightarrow> run_log_store" where
  "put_run_log store rl = upsert run_id rl store"

definition create_step_log :: "string \<Rightarrow> string \<Rightarrow> step_log" where
  "create_step_log nm iname =
     \<lparr>step_name = nm, step_internal_name = iname, step_type = ''task'',
      step_status = FAIL, mock = False, step_message = [], attempts = [],
      user_defined_metrics = Map.empty, code_identities = [], data_catalogs = []\<rparr>"

definition search_step_by_internal_name :: "run_log \<Rightarrow> string \<Rightarrow> error + step_log" where
  "search_step_by_internal_name rl iname =
     (case find (\<lambda>sl. step_internal_name sl = iname) (steps rl) of
        None \<Rightarrow> Inl StepLogNotFoundError
      | Some sl \<Rightarrow> Inr sl)"

definition get_step_log :: "run_log_store \<Rightarrow> string \<Rightarrow> string \<Rightarrow> error + step_log" where
  "get_step_log store iname rid =
     (case get_run_log_by_id store rid of
        Inl e \<Rightarrow> Inl e
      | Inr rl \<Rightarrow> search_step_by_internal_name rl iname)"

definition add_step_log :: "run_log_store \<Rightarrow> step_log \<Rightarrow> string \<Rightarrow> error + run_log_store" where
  "add_step_log store sl rid =
     (case get_run_log_by_id store rid of
        Inl e \<Rightarrow> Inl e
      | Inr rl \<Rightarrow>
          Inr (put_run_log store (rl\<lparr>steps := upsert step_internal_name sl (steps rl)\<rparr>)))"

text \<open>
  Modelled from the spec: the enclosing log of a node is a Branch Log, or the Run Log
  itself for a node at the root, whose internal branch name is empty.
\<close>

datatype run_or_branch_log = IsRunLog run_log | IsBranchLog branch_log

fun log_status :: "run_or_branch_log \<Rightarrow> status" where
  "log_status (IsRunLog rl) = run_status rl"
| "log_status (IsBranchLog bl) = branch_status bl"

fun set_log_status :: "status \<Rightarrow> run_or_branch_log \<Rightarrow> run_or_branch_log" where
  "set_log_status st (IsRunLog rl) = IsRunLog (rl\<lparr>run_status := st\<rparr>)"
| "set_log_status st (IsBranchLog bl) = IsBranchLog (bl\<lparr>branch_status := st\<rparr>)"

definition create_branch_log :: "string \<Rightarrow> branch_log" where
  "create_branch_log iname = \<lparr>branch_internal_name = iname, branch_status = FAIL\<rparr>"

definition get_branch_log :: "run_log_store \<Rightarrow> string \<Rightarrow> string \<Rightarrow> error + run_or_branch_log" where
  "get_branch_log store iname rid =
     (case get_run_log_by_id store rid of
        Inl e \<Rightarrow> Inl e
      | Inr rl \<Rightarrow>
          if iname = [] then Inr (IsRunLog rl)
          else (case find (\<lambda>bl. branch_internal_name bl = iname) (branches rl) of
                  None \<Rightarrow> Inl BranchLogNotFoundError
                | Some bl \<Rightarrow> Inr (IsBranchLog bl)))"

fun add_branch_log :: "run_log_store \<Rightarrow> run_or_branch_log \<Rightarrow> string \<Rightarrow> error + run_log_store" where
  "add_branch_log store (IsRunLog rl) rid = Inr (put_run_log store rl)"
| "add_branch_log store (IsBranchLog bl) rid =
     (case get_run_log_by_id store rid of
        Inl e \<Rightarrow> Inl e
      | Inr rl \<Rightarrow>
          Inr (put_run_log store (rl\<lparr>branches := upsert branch_internal_name bl (branches rl)\<rparr>)))"

definition create_attempt_log :: attempt_log where
  "create_attempt_log = \<lparr>attempt_numner = 0, attempt_status = FAIL\<rparr>"

definition get_parameters :: "run_log_store \<Rightarrow> string \<Rightarrow> error + (string \<rightharpoonup> yaml)" where
  "get_parameters store rid =
     (case get_run_log_by_id store rid of Inl e \<Rightarrow> Inl e | Inr rl \<Rightarrow> Inr (parameters rl))"

definition set_parameters :: "run_log_store \<Rightarrow> string \<Rightarrow> (string \<rightharpoonup> yaml) \<Rightarrow> error + run_log_store" where
  "set_parameters store rid ps =
     (case get_run_log_by_id store rid of
        Inl e \<Rightarrow> Inl e
      | Inr rl \<Rightarrow> Inr (put_run_log store (rl\<lparr>parameters := parameters rl ++ ps\<rparr>)))"

section \<open>Graph\<close>

text \<open>
  Modelled from the spec: the module \<^verbatim>\<open>graph\<close> is not among the sources. A graph has a
  start node name and an ordered list of nodes; \<^verbatim>\<open>get_node_by_name\<close> fails with
  \<open>NodeNotFound\<close> when no node has the name, and \<^verbatim>\<open>get_fail_node\<close> returns the node
  of type \<open>fail\<close> and raises when there is none (as the tests of the graph module say).
\<close>

record graph =
  start_at :: string
  graph_internal_branch_name :: string
  nodes :: "node list"

definition get_node_by_name :: "graph \<Rightarrow> string \<Rightarrow> error + node" where
  "get_node_by_name dag nm =
     (case find (\<lambda>n. name n = nm) (nodes dag) of
        None \<Rightarrow> Inl NodeNotFoundError
      | Some n \<Rightarrow> Inr n)"

definition get_fail_node :: "graph \<Rightarrow> error + node" where
  "get_fail_node dag =
     (case find (\<lambda>n. node_type n = ''fail'') (nodes dag) of
        None \<Rightarrow> Inl (Exception ''No fail node defined'')
      | Some n \<Rightarrow> Inr n)"

section \<open>Executor\<close>

text \<open>
  The attributes of \<^verbatim>\<open>BaseExecutor\<close> that the modelled methods read or write. A method
  that changes the store or the previous-run pointer returns the executor updated.
\<close>

record executor =
  ex_run_id :: string
  ex_dag_hash :: string
  run_log_store :: run_log_store
  previous_run_log :: "run_log option"

text \<open>
  \<^verbatim>\<open>get_status_and_next_node_name\<close>:
  \<^verbatim>\<open>
    step_log = self.run_log_store.get_step_log(current_node.get_step_log_name(map_variable), self.run_id)
    next_node_name = current_node.get_next_node()
    if step_log.status == defaults.FAIL:
        next_node_name = dag.get_fail_node().name
        if current_node.get_on_failure_node():
            next_node_name = current_node.get_on_failure_node()
    return step_log.status, next_node_name
  \<close>
\<close>

definition get_status_and_next_node_name ::
    "executor \<Rightarrow> node \<Rightarrow> graph \<Rightarrow> map_variable \<Rightarrow> error + (status \<times> yaml)" where
  "get_status_and_next_node_name ex current_node dag map_variable =
     (case get_step_log_name current_node map_variable of
        Inl e \<Rightarrow> Inl e
      | Inr nm \<Rightarrow>
     (case get_step_log (run_log_store ex) nm (ex_run_id ex) of
        Inl e \<Rightarrow> Inl e
      | Inr step_log \<Rightarrow>
          if step_status step_log = FAIL then
            (case get_fail_node dag of
               Inl e \<Rightarrow> Inl e
             | Inr fail_node \<Rightarrow>
                 if truthy (get_on_failure_node current_node)
                 then Inr (step_status step_log, get_on_failure_node current_node)
                 else Inr (step_status step_log, YStr (name fail_node)))
          else Inr (step_status step_log, get_next_node current_node)))"

text \<open>
  \<^verbatim>\<open>FailNode.execute\<close> and \<^verbatim>\<open>SuccessNode.execute\<close>. Both fetch the enclosing branch or
  run log, set its status and store it back inside a \<^verbatim>\<open>try\<close> whose bare
  \<^verbatim>\<open>except\<close> swallows every error; the \<^verbatim>\<open>finally\<close> clause marks the attempt
  \<open>SUCCESS\<close>. They return the attempt log, and the executor with the store as the body
  left it.
\<close>

definition set_enclosing_log_status ::
    "status \<Rightarrow> executor \<Rightarrow> node \<Rightarrow> map_variable \<Rightarrow> error + executor" where
  "set_enclosing_log_status st ex n map_variable =
     (case get_branch_log_name n map_variable of
        Inl e \<Rightarrow> Inl e
      | Inr nm \<Rightarrow>
     (case get_branch_log (run_log_store ex) nm (ex_run_id ex) of
        Inl e \<Rightarrow> Inl e
      | Inr run_or_branch_log \<Rightarrow>
     (case add_branch_log (run_log_store ex) (set_log_status st run_or_branch_log) (ex_run_id ex) of
        Inl e \<Rightarrow> Inl e
      | Inr store' \<Rightarrow> Inr (ex\<lparr>run_log_store := store'\<rparr>))))"

definition fail_node_execute ::
    "executor \<Rightarrow> node \<Rightarrow> bool \<Rightarrow> map_variable \<Rightarrow> attempt_log \<times> executor" where
  "fail_node_execute ex n mock_flag map_variable =
     (let attempt_log = create_attempt_log\<lparr>attempt_status := SUCCESS\<rparr>;
          ex' = (case set_enclosing_log_status FAIL ex n map_variable of
                   Inl e \<Rightarrow> ex
                 | Inr ex1 \<Rightarrow> ex1)
      in (attempt_log\<lparr>attempt_status := SUCCESS\<rparr>, ex'))"

definition success_node_execute ::
    "executor \<Rightarrow> node \<Rightarrow> bool \<Rightarrow> map_variable \<Rightarrow> attempt_log \<times> executor" where
  "success_node_execute ex n mock_flag map_variable =
     (let attempt_log = create_attempt_log\<lparr>attempt_status := SUCCESS\<rparr>;
          ex' = (case set_enclosing_log_status SUCCESS ex n map_variable of
                   Inl e \<Rightarrow> ex
                 | Inr ex1 \<Rightarrow> ex1)
      in (attempt_log\<lparr>attempt_status := SUCCESS\<rparr>, ex'))"

section \<open>Composite nodes\<close>

text \<open>
  The module \<^verbatim>\<open>graph\<close> is not among the sources, so \<^verbatim>\<open>create_graph\<close> is a parameter:
  given the configuration of a sub-DAG and its internal branch name, it returns the graph
  or raises. The graphs a composite node holds are of any type \<open>'g\<close>.

  \<^verbatim>\<open>ParallelNode.get_sub_graphs\<close>:
  \<^verbatim>\<open>
    branches = {}
    for branch_name, branch_config in self.config['branches'].items():
        sub_graph = create_graph(branch_config, internal_branch_name=self.internal_name + '.' + branch_name)
        branches[self.internal_name + '.' + branch_name] = sub_graph
    if not branches:
        raise Exception('A parallel node should have branches')
    return branches
  \<close>
\<close>

record 'g parallel_node =
  par_node :: node
  par_branches :: "(string \<times> 'g) list"

fun create_sub_graphs ::
    "(yaml \<Rightarrow> string \<Rightarrow> error + 'g) \<Rightarrow> string \<Rightarrow> (string \<times> yaml) list
       \<Rightarrow> (string \<times> 'g) list \<Rightarrow> error + (string \<times> 'g) list" where
  "create_sub_graphs create_graph iname [] acc = Inr acc"
| "create_sub_graphs create_graph iname ((branch_name, branch_config) # rest) acc =
     (case create_graph branch_config (iname @ ''.'' @ branch_name) of
        Inl e \<Rightarrow> Inl e
      | Inr sub_graph \<Rightarrow>
          create_sub_graphs create_graph iname rest
            (upsert fst (iname @ ''.'' @ branch_name, sub_graph) acc))"

definition get_sub_graphs ::
    "(yaml \<Rightarrow> string \<Rightarrow> error + 'g) \<Rightarrow> node \<Rightarrow> error + (string \<times> 'g) list" where
  "get_sub_graphs create_graph n =
     (case map_of (config n) ''branches'' of
        None \<Rightarrow> Inl (KeyError ''branches'')
      | Some (YDict kvs) \<Rightarrow>
          (case create_sub_graphs create_graph (internal_name n) kvs [] of
             Inl e \<Rightarrow> Inl e
           | Inr bs \<Rightarrow>
               if bs = [] then Inl (Exception ''A parallel node should have branches'')
               else Inr bs)
      | Some _ \<Rightarrow> Inl AttributeError)"

definition parallel_node_init ::
    "(yaml \<Rightarrow> string \<Rightarrow> error + 'g) \<Rightarrow> string \<Rightarrow> string \<Rightarrow> (string \<times> yaml) list \<Rightarrow> string
       \<Rightarrow> error + 'g parallel_node" where
  "parallel_node_init create_graph nm iname cfg ibn =
     (let n = \<lparr>name = nm, internal_name = iname, internal_branch_name = ibn,
               node_type = ''parallel'', config = cfg\<rparr>
      in case get_sub_graphs create_graph n of
           Inl e \<Rightarrow> Inl e
         | Inr bs \<Rightarrow> Inr \<lparr>par_node = n, par_branches = bs\<rparr>)"

text \<open>
  \<^verbatim>\<open>MapNode.__init__\<close>:
  \<^verbatim>\<open>
    self.iterate_on = self.config.get('iterate_on', None)
    self.iterate_as = self.config.get('iterate_as', None)
    if not self.iterate_on:
        raise Exception('A node type of map requires a parameter iterate_on, ...')
    if not self.iterate_as:
        raise Exception('A node type of map requires a parameter iterate_as, ...')
    self.branch_placeholder_name = defaults.MAP_PLACEHOLDER
    self.branch = self.get_sub_graph()
  \<close>
  where \<^verbatim>\<open>get_sub_graph\<close> creates the graph of \<^verbatim>\<open>self.config['branch']\<close> under the
  internal branch name \<^verbatim>\<open>self.internal_name + '.' + self.branch_placeholder_name\<close>.
\<close>

record 'g map_node =
  map_base :: node
  iterate_on :: yaml
  iterate_as :: yaml
  map_branch :: 'g

definition config_get :: "(string \<times> yaml) list \<Rightarrow> string \<Rightarrow> yaml" where
  "config_get cfg k = (case map_of cfg k of Some v \<Rightarrow> v | None \<Rightarrow> YNone)"

definition map_node_init ::
    "(yaml \<Rightarrow> string \<Rightarrow> error + 'g) \<Rightarrow> string \<Rightarrow> string \<Rightarrow> (string \<times> yaml) list \<Rightarrow> string
       \<Rightarrow> error + 'g map_node" where
  "map_node_init create_graph nm iname cfg ibn =
     (let n = \<lparr>name = nm, internal_name = iname, internal_branch_name = ibn,
               node_type = ''map'', config = cfg\<rparr>
      in if \<not> truthy (config_get cfg ''iterate_on'') then
           Inl (Exception ''A node type of map requires a parameter iterate_on, please define it in the config'')
         else if \<not> truthy (config_get cfg ''iterate_as'') then
           Inl (Exception ''A node type of map requires a parameter iterate_as, please define it in the config'')
         else
           (case map_of cfg ''branch'' of
              None \<Rightarrow> Inl (KeyError ''branch'')
            | Some branch_config \<Rightarrow>
                (case create_graph branch_config (iname @ ''.'' @ [MAP_PLACEHOLDER]) of
                   Inl e \<Rightarrow> Inl e
                 | Inr g \<Rightarrow>
                     Inr \<lparr>map_base = n, iterate_on = config_get cfg ''iterate_on'',
                          iterate_as = config_get cfg ''iterate_as'', map_branch = g\<rparr>)))"

text \<open>
  The three \<^verbatim>\<open>execute_as_graph\<close> methods share their first and last loops, which the
  source writes out in each of them.

  The first loop creates a Branch Log of status \<open>PROCESSING\<close> for every child branch,
  under its effective name:
  \<^verbatim>\<open>
    effective_branch_name = self.resolve_map_placeholders(internal_branch_name, map_variable=map_variable)
    branch_log = executor.run_log_store.create_branch_log(effective_branch_name)
    branch_log.status = defaults.PROCESSING
    executor.run_log_store.add_branch_log(branch_log, executor.run_id)
  \<close>
\<close>

fun prepare_branch_logs ::
    "executor \<Rightarrow> map_variable \<Rightarrow> string list \<Rightarrow> error + executor" where
  "prepare_branch_logs ex map_variable [] = Inr ex"
| "prepare_branch_logs ex map_variable (branch_name # rest) =
     (case resolve_map_placeholders branch_name map_variable of
        Inl e \<Rightarrow> Inl e
      | Inr effective_branch_name \<Rightarrow>
     (case add_branch_log (run_log_store ex)
             (IsBranchLog ((create_branch_log effective_branch_name)\<lparr>branch_status := PROCESSING\<rparr>))
             (ex_run_id ex) of
        Inl e \<Rightarrow> Inl e
      | Inr store' \<Rightarrow> prepare_branch_logs (ex\<lparr>run_log_store := store'\<rparr>) map_variable rest))"

text \<open>
  The last loop reads every child Branch Log back, once the branches are joined:
  \<^verbatim>\<open>
    step_success_bool = True
    waiting = False
    for ...:
        effective_branch_name = self.resolve_map_placeholders(..., map_variable=map_variable)
        branch_log = executor.run_log_store.get_branch_log(effective_branch_name, executor.run_id)
        if branch_log.status == defaults.FAIL:
            step_success_bool = False
        if branch_log.status == defaults.PROCESSING:
            waiting = True
  \<close>
  It returns the pair \<open>(step_success_bool, waiting)\<close>.
\<close>

fun find_status_of_branches ::
    "executor \<Rightarrow> map_variable \<Rightarrow> string list \<Rightarrow> bool \<times> bool \<Rightarrow> error + (bool \<times> bool)" where
  "find_status_of_branches ex map_variable [] acc = Inr acc"
| "find_status_of_branches ex map_variable (branch_name # rest) (step_success_bool, waiting) =
     (case resolve_map_placeholders branch_name map_variable of
        Inl e \<Rightarrow> Inl e
      | Inr effective_branch_name \<Rightarrow>
     (case get_branch_log (run_log_store ex) effective_branch_name (ex_run_id ex) of
        Inl e \<Rightarrow> Inl e
      | Inr branch_log \<Rightarrow>
          find_status_of_branches ex map_variable rest
            (if log_status branch_log = FAIL then False else step_success_bool,
             if log_status branch_log = PROCESSING then True else waiting)))"

text \<open>
  The status of the step is then collated and stored:
  \<^verbatim>\<open>
    effective_internal_name = self.resolve_map_placeholders(self.internal_name, map_variable=map_variable)
    step_log = executor.run_log_store.get_step_log(effective_internal_name, executor.run_id)
    step_log.status = defaults.PROCESSING
    if step_success_bool:  #  If none failed and nothing is waiting
        if not waiting:
            step_log.status = defaults.SUCCESS
    else:
        step_log.status = defaults.FAIL
    executor.run_log_store.add_step_log(step_log, executor.run_id)
  \<close>
\<close>

definition collate_status :: "bool \<Rightarrow> bool \<Rightarrow> status" where
  "collate_status step_success_bool waiting =
     (if step_success_bool then (if \<not> waiting then SUCCESS else PROCESSING) else FAIL)"

definition update_step_status ::
    "executor \<Rightarrow> node \<Rightarrow> map_variable \<Rightarrow> bool \<times> bool \<Rightarrow> error + executor" where
  "update_step_status ex n map_variable res =
     (case resolve_map_placeholders (internal_name n) map_variable of
        Inl e \<Rightarrow> Inl e
      | Inr effective_internal_name \<Rightarrow>
     (case get_step_log (run_log_store ex) effective_internal_name (ex_run_id ex) of
        Inl e \<Rightarrow> Inl e
      | Inr step_log \<Rightarrow>
     (case add_step_log (run_log_store ex)
             (step_log\<lparr>step_status := collate_status (fst res) (snd res)\<rparr>) (ex_run_id ex) of
        Inl e \<Rightarrow> Inl e
      | Inr store' \<Rightarrow> Inr (ex\<lparr>run_log_store := store'\<rparr>))))"

text \<open>
  \<^verbatim>\<open>ParallelNode.execute_as_graph\<close>. The second loop runs every branch, in a process of
  its own or by \<^verbatim>\<open>executor.execute_graph\<close>, and the processes are joined; what that does
  to the store is the parameter \<open>run_branches\<close>.
\<close>

definition parallel_execute_as_graph ::
    "((string \<times> 'g) list \<Rightarrow> map_variable \<Rightarrow> executor \<Rightarrow> error + executor)
       \<Rightarrow> 'g parallel_node \<Rightarrow> executor \<Rightarrow> map_variable \<Rightarrow> error + executor" where
  "parallel_execute_as_graph run_branches pn ex map_variable =
     (case prepare_branch_logs ex map_variable (map fst (par_branches pn)) of
        Inl e \<Rightarrow> Inl e
      | Inr ex1 \<Rightarrow>
     (case run_branches (par_branches pn) map_variable ex1 of
        Inl e \<Rightarrow> Inl e
      | Inr ex2 \<Rightarrow>
     (case find_status_of_branches ex2 map_variable (map fst (par_branches pn)) (True, False) of
        Inl e \<Rightarrow> Inl e
      | Inr res \<Rightarrow> update_step_status ex2 (par_node pn) map_variable res)))"

text \<open>
  \<^verbatim>\<open>MapNode.execute_as_graph\<close>. It first reads the list to iterate on:
  \<^verbatim>\<open>
    run_log = executor.run_log_store.get_run_log_by_id(executor.run_id)
    if self.iterate_on not in run_log.parameters:
        raise Exception(f'Expected parameter {self.iterate_on} not present in Run Log parameters, ...')
    iterate_on = run_log.parameters[self.iterate_on]
    if not isinstance(iterate_on, list):
        raise Exception('Only list is allowed as a valid iterator type')
  \<close>
  The parameters are keyed by strings; a list or a dictionary is not hashable and
  cannot be looked up. The branch of an iteration value \<open>v\<close> is named
  \<^verbatim>\<open>self.internal_name + '.' + str(v)\<close>, with the builtin \<^verbatim>\<open>str\<close> a parameter. The
  second loop binds \<^verbatim>\<open>iterate_as\<close> in the map variable, which it may update in place,
  and runs the branch for every value: it is the parameter \<open>run_branches\<close>, which returns
  the map variable as the loop left it.
\<close>

definition get_iterate_on :: "'g map_node \<Rightarrow> executor \<Rightarrow> error + yaml list" where
  "get_iterate_on mn ex =
     (case get_run_log_by_id (run_log_store ex) (ex_run_id ex) of
        Inl e \<Rightarrow> Inl e
      | Inr run_log \<Rightarrow>
          (case iterate_on mn of
             YList xs \<Rightarrow> Inl TypeError
           | YDict kvs \<Rightarrow> Inl TypeError
           | YStr k \<Rightarrow>
               (case parameters run_log k of
                  None \<Rightarrow> Inl (Exception ''Expected parameter not present in Run Log parameters, was it ever set before?'')
                | Some (YList vs) \<Rightarrow> Inr vs
                | Some _ \<Rightarrow> Inl (Exception ''Only list is allowed as a valid iterator type''))
           | _ \<Rightarrow> Inl (Exception ''Expected parameter not present in Run Log parameters, was it ever set before?'')))"

definition map_execute_as_graph ::
    "(yaml \<Rightarrow> string)
       \<Rightarrow> (yaml list \<Rightarrow> map_variable \<Rightarrow> executor \<Rightarrow> error + (map_variable \<times> executor))
       \<Rightarrow> 'g map_node \<Rightarrow> executor \<Rightarrow> map_variable \<Rightarrow> error + executor" where
  "map_execute_as_graph py_str run_branches mn ex map_variable =
     (case get_iterate_on mn ex of
        Inl e \<Rightarrow> Inl e
      | Inr vs \<Rightarrow>
     (let names = map (\<lambda>v. internal_name (map_base mn) @ ''.'' @ py_str v) vs in
     (case prepare_branch_logs ex map_variable names of
        Inl e \<Rightarrow> Inl e
      | Inr ex1 \<Rightarrow>
     (case run_branches vs map_variable ex1 of
        Inl e \<Rightarrow> Inl e
      | Inr (map_variable', ex2) \<Rightarrow>
     (case find_status_of_branches ex2 map_variable' names (True, False) of
        Inl e \<Rightarrow> Inl e
      | Inr res \<Rightarrow> update_step_status ex2 (map_base mn) map_variable' res)))))"

text \<open>
  \<^verbatim>\<open>DagNode.execute_as_graph\<close>: the same protocol for the single branch named
  \<^verbatim>\<open>self.internal_name + '.' + defaults.DAG_BRANCH_NAME\<close>. Modelled from the spec: the
  branch name of a dag node is \<open>dag\<close>. The call of
  \<^verbatim>\<open>executor.execute_graph\<close> on the branch is the parameter \<open>run_branch\<close>.
\<close>

record 'g dag_node =
  dag_base :: node
  dag_branch :: 'g

definition DAG_BRANCH_NAME :: string where
  "DAG_BRANCH_NAME = ''dag''"

definition dag_execute_as_graph ::
    "('g \<Rightarrow> map_variable \<Rightarrow> executor \<Rightarrow> error + executor)
       \<Rightarrow> 'g dag_node \<Rightarrow> executor \<Rightarrow> map_variable \<Rightarrow> error + executor" where
  "dag_execute_as_graph run_branch dn ex map_variable =
     (let ibn = internal_name (dag_base dn) @ ''.'' @ DAG_BRANCH_NAME in
     (case resolve_map_placeholders ibn map_variable of
        Inl e \<Rightarrow> Inl e
      | Inr effective_branch_name \<Rightarrow>
     (case resolve_map_placeholders (internal_name (dag_base dn)) map_variable of
        Inl e \<Rightarrow> Inl e
      | Inr effective_internal_name \<Rightarrow>
     (case prepare_branch_logs ex map_variable [ibn] of
        Inl e \<Rightarrow> Inl e
      | Inr ex1 \<Rightarrow>
     (case run_branch (dag_branch dn) map_variable ex1 of
        Inl e \<Rightarrow> Inl e
      | Inr ex2 \<Rightarrow>
     (case find_status_of_branches ex2 map_variable [ibn] (True, False) of
        Inl e \<Rightarrow> Inl e
      | Inr res \<Rightarrow> update_step_status ex2 (dag_base dn) map_variable res))))))"

text \<open>
  The statuses of the child Branch Logs of a composite step, as the store holds them:
  what the statements about a reconciled step are compared with.
\<close>

fun child_statuses ::
    "run_log_store \<Rightarrow> string \<Rightarrow> map_variable \<Rightarrow> string list \<Rightarrow> error + status list" where
  "child_statuses store rid map_variable [] = Inr []"
| "child_statuses store rid map_variable (branch_name # rest) =
     (case resolve_map_placeholders branch_name map_variable of
        Inl e \<Rightarrow> Inl e
      | Inr effective_branch_name \<Rightarrow>
     (case get_branch_log store effective_branch_name rid of
        Inl e \<Rightarrow> Inl e
      | Inr branch_log \<Rightarrow>
     (case child_statuses store rid map_variable rest of
        Inl e \<Rightarrow> Inl e
      | Inr sts \<Rightarrow> Inr (log_status branch_log # sts))))"

text \<open>
  The relation between the statuses of the child Branch Logs and the status of the
  reconciled step.
\<close>

definition reconciled :: "status list \<Rightarrow> status \<Rightarrow> bool" where
  "reconciled sts st \<longleftrightarrow>
     (st = SUCCESS \<longleftrightarrow> FAIL \<notin> set sts \<and> PROCESSING \<notin> set sts)
     \<and> (st = FAIL \<longleftrightarrow> FAIL \<in> set sts)
     \<and> (st = PROCESSING \<longleftrightarrow> FAIL \<notin> set sts \<and> PROCESSING \<in> set sts)"

text \<open>\<^verbatim>\<open>isinstance(v, list)\<close>.\<close>

fun is_list :: "yaml \<Rightarrow> bool" where
  "is_list (YList vs) = True"
| "is_list v = False"

section \<open>Executing a node\<close>

text \<open>
  What the executor calls outside itself, by dynamic dispatch or in modules that are not
  among the sources, is gathered in one record of parameters:
  \<^item> \<open>builtin_int\<close>: the builtin \<^verbatim>\<open>int\<close>;
  \<^item> \<open>execute_command\<close>: the user's command of a task (\<^verbatim>\<open>execute_command\<close> of the
    execution type); it returns or raises. Its outcome depends on the world and not only
    on its arguments, so it is also given the attempt counter of the retry loop;
  \<^item> \<open>get_tracked_data\<close>, \<open>get_user_set_parameters\<close>: the metrics and the parameters
    the task left in the process environment (\<^verbatim>\<open>utils\<close>), by the attempt counter;
  \<^item> \<open>catalog_items\<close>: the catalog items \<^verbatim>\<open>sync_catalog\<close> obtains from the catalog
    handler for a node and a stage (\<open>None\<close> when the node asks for none), or the error it
    raises;
  \<^item> \<open>git_code_identity\<close>: \<^verbatim>\<open>utils.get_git_code_identity\<close>;
  \<^item> \<open>trigger_job\<close>: the executor's own way to run a node, which \<^verbatim>\<open>BaseExecutor\<close>
    leaves abstract;
  \<^item> \<open>execute_as_graph\<close>: the expansion of a composite node.
\<close>

record collaborators =
  builtin_int :: "yaml \<Rightarrow> error + int"
  execute_command :: "int \<Rightarrow> yaml \<Rightarrow> map_variable \<Rightarrow> error option"
  get_tracked_data :: "int \<Rightarrow> (string \<rightharpoonup> yaml)"
  get_user_set_parameters :: "int \<Rightarrow> (string \<rightharpoonup> yaml)"
  catalog_items :: "node \<Rightarrow> step_log \<Rightarrow> string \<Rightarrow> string list option \<Rightarrow> error + string list option"
  git_code_identity :: string
  trigger_job :: "node \<Rightarrow> map_variable \<Rightarrow> executor \<Rightarrow> error + executor"
  execute_as_graph :: "node \<Rightarrow> map_variable \<Rightarrow> executor \<Rightarrow> error + executor"

text \<open>
  \<^verbatim>\<open>TaskNode.execute\<close>:
  \<^verbatim>\<open>
    attempt_log = executor.run_log_store.create_attempt_log()
    try:
        attempt_log.status = defaults.SUCCESS
        command = self.config['command']
        if not mock:
            self.execution_type.execute_command(command, map_variable=map_variable)
    except Exception as _e:
        attempt_log.status = defaults.FAIL
    return attempt_log
  \<close>
\<close>

definition task_node_execute ::
    "collaborators \<Rightarrow> int \<Rightarrow> executor \<Rightarrow> node \<Rightarrow> bool \<Rightarrow> map_variable \<Rightarrow> attempt_log \<times> executor" where
  "task_node_execute co i ex n mock_flag map_variable =
     (let attempt_log = create_attempt_log\<lparr>attempt_status := SUCCESS\<rparr> in
      case map_of (config n) ''command'' of
        None \<Rightarrow> (attempt_log\<lparr>attempt_status := FAIL\<rparr>, ex)
      | Some command \<Rightarrow>
          if \<not> mock_flag then
            (case execute_command co i command map_variable of
               None \<Rightarrow> (attempt_log, ex)
             | Some e \<Rightarrow> (attempt_log\<lparr>attempt_status := FAIL\<rparr>, ex))
          else (attempt_log, ex))"

text \<open>\<^verbatim>\<open>AsISNode.execute\<close> returns a \<open>SUCCESS\<close> attempt log.\<close>

definition as_is_node_execute ::
    "executor \<Rightarrow> node \<Rightarrow> bool \<Rightarrow> map_variable \<Rightarrow> attempt_log \<times> executor" where
  "as_is_node_execute ex n mock_flag map_variable =
     (create_attempt_log\<lparr>attempt_status := SUCCESS\<rparr>, ex)"

text \<open>
  \<^verbatim>\<open>node.execute\<close>: the class of a node is chosen by its \<open>node_type\<close>
  (\<^verbatim>\<open>get_node_class\<close>). The composite nodes raise, and so does \<^verbatim>\<open>BaseNode.execute\<close>.
\<close>

definition node_execute ::
    "collaborators \<Rightarrow> int \<Rightarrow> executor \<Rightarrow> node \<Rightarrow> bool \<Rightarrow> map_variable
       \<Rightarrow> error + (attempt_log \<times> executor)" where
  "node_execute co i ex n mock_flag map_variable =
     (if node_type n = ''task'' then Inr (task_node_execute co i ex n mock_flag map_variable)
      else if node_type n = ''fail'' then Inr (fail_node_execute ex n mock_flag map_variable)
      else if node_type n = ''success'' then Inr (success_node_execute ex n mock_flag map_variable)
      else if node_type n = ''as-is'' then Inr (as_is_node_execute ex n mock_flag map_variable)
      else if node_type n \<in> {''parallel'', ''map'', ''dag''} then
        Inl (Exception ''Node is of type composite, error in traversal rules'')
      else Inl NotImplementedError)"

text \<open>
  The retry loop of \<^verbatim>\<open>execute_node\<close>:
  \<^verbatim>\<open>
    while attempts < max_attempts:
        try:
            attempt_log = node.execute(executor=self, mock=mock, map_variable=map_variable, **kwargs)
            attempt_log.attempt_numner = attempts
            step_log.attempts.append(attempt_log)
            if attempt_log.status == defaults.FAIL:
                raise Exception()
            step_log.status = defaults.SUCCESS
            step_log.user_defined_metrics = utils.get_tracked_data()
            self.run_log_store.set_parameters(self.run_id, utils.get_user_set_parameters(remove=True))
            break
        except Exception as _e:
            attempts += 1
            utils.get_tracked_data()
            utils.get_user_set_parameters(remove=True)
        if attempts == max_attempts:
            step_log.status = defaults.FAIL
  \<close>
  \<open>after_exception\<close> is the \<^verbatim>\<open>except\<close> clause followed by the test on \<open>attempts\<close>
  (the counter is \<open>attempt_count\<close> here, \<open>attempts\<close> being the attribute of the step log);
  every exception raised in the \<^verbatim>\<open>try\<close>, also by the store, ends there.
\<close>

definition after_exception :: "int \<Rightarrow> int \<Rightarrow> step_log \<Rightarrow> int \<times> step_log" where
  "after_exception max_attempts attempt_count step_log =
     (attempt_count + 1,
      if attempt_count + 1 = max_attempts then step_log\<lparr>step_status := FAIL\<rparr> else step_log)"

function retry_loop ::
    "collaborators \<Rightarrow> node \<Rightarrow> map_variable \<Rightarrow> bool \<Rightarrow> int \<Rightarrow> int \<Rightarrow> step_log \<Rightarrow> executor
       \<Rightarrow> step_log \<times> executor" where
  "retry_loop co n map_variable mock_flag max_attempts attempt_count step_log ex =
     (if attempt_count < max_attempts then
        (case node_execute co attempt_count ex n mock_flag map_variable of
           Inl e \<Rightarrow>
             retry_loop co n map_variable mock_flag max_attempts (attempt_count + 1)
               (snd (after_exception max_attempts attempt_count step_log)) ex
         | Inr (attempt_log, ex1) \<Rightarrow>
             (let step_log1 = step_log\<lparr>attempts :=
                    attempts step_log @ [attempt_log\<lparr>attempt_numner := attempt_count\<rparr>]\<rparr>
              in if attempt_status attempt_log = FAIL then
                   retry_loop co n map_variable mock_flag max_attempts (attempt_count + 1)
                     (snd (after_exception max_attempts attempt_count step_log1)) ex1
                 else
                   (let step_log2 = step_log1\<lparr>step_status := SUCCESS,
                          user_defined_metrics := get_tracked_data co attempt_count\<rparr>
                    in case set_parameters (run_log_store ex1) (ex_run_id ex1)
                              (get_user_set_parameters co attempt_count) of
                         Inl e \<Rightarrow>
                           retry_loop co n map_variable mock_flag max_attempts (attempt_count + 1)
                             (snd (after_exception max_attempts attempt_count step_log2)) ex1
                       | Inr store' \<Rightarrow> (step_log2, ex1\<lparr>run_log_store := store'\<rparr>))))
      else (step_log, ex))"
  by pat_completeness auto
termination
  by (relation "measure (\<lambda>(co, n, mv, m, max_attempts, attempt_count, sl, ex). nat (max_attempts - attempt_count))")
     auto

declare retry_loop.simps [simp del]

text \<open>
  \<^verbatim>\<open>execute_node\<close>:
  \<^verbatim>\<open>
    max_attempts = node.get_max_attempts()
    attempts = 0
    step_log = self.run_log_store.get_step_log(node.get_step_log_name(map_variable), self.run_id)
    parameters = self.run_log_store.get_parameters(run_id=self.run_id)
    interaction.store_parameter(**parameters)
    data_catalogs_get = self.sync_catalog(node, step_log, stage='get')
    mock = step_log.mock
    while attempts < max_attempts: ...
    self.sync_catalog(node, step_log, stage='put', synced_catalogs=data_catalogs_get)
    self.run_log_store.add_step_log(step_log, self.run_id)
  \<close>
  \<^verbatim>\<open>sync_catalog\<close> adds the catalog items it obtained, if any, to the step log and
  returns them.
\<close>

definition sync_catalog ::
    "collaborators \<Rightarrow> node \<Rightarrow> step_log \<Rightarrow> string \<Rightarrow> string list option
       \<Rightarrow> error + (string list option \<times> step_log)" where
  "sync_catalog co n step_log stage synced_catalogs =
     (case catalog_items co n step_log stage synced_catalogs of
        Inl e \<Rightarrow> Inl e
      | Inr None \<Rightarrow> Inr (None, step_log)
      | Inr (Some items) \<Rightarrow>
          Inr (Some items,
               if items \<noteq> [] then step_log\<lparr>data_catalogs := data_catalogs step_log @ items\<rparr>
               else step_log))"

definition execute_node ::
    "collaborators \<Rightarrow> node \<Rightarrow> map_variable \<Rightarrow> executor \<Rightarrow> error + executor" where
  "execute_node co n map_variable ex =
     (case get_max_attempts (builtin_int co) n of
        Inl e \<Rightarrow> Inl e
      | Inr max_attempts \<Rightarrow>
     (case get_step_log_name n map_variable of
        Inl e \<Rightarrow> Inl e
      | Inr nm \<Rightarrow>
     (case get_step_log (run_log_store ex) nm (ex_run_id ex) of
        Inl e \<Rightarrow> Inl e
      | Inr step_log \<Rightarrow>
     (case get_parameters (run_log_store ex) (ex_run_id ex) of
        Inl e \<Rightarrow> Inl e
      | Inr ps \<Rightarrow>
     (case sync_catalog co n step_log ''get'' None of
        Inl e \<Rightarrow> Inl e
      | Inr (data_catalogs_get, step_log1) \<Rightarrow>
     (case retry_loop co n map_variable (mock step_log1) max_attempts 0 step_log1 ex of
        (step_log2, ex2) \<Rightarrow>
     (case sync_catalog co n step_log2 ''put'' data_catalogs_get of
        Inl e \<Rightarrow> Inl e
      | Inr (data_catalogs_put, step_log3) \<Rightarrow>
     (case add_step_log (run_log_store ex2) step_log3 (ex_run_id ex2) of
        Inl e \<Rightarrow> Inl e
      | Inr store' \<Rightarrow> Inr (ex2\<lparr>run_log_store := store'\<rparr>)))))))))"

section \<open>Traversal\<close>

text \<open>
  \<^verbatim>\<open>is_eligible_for_rerun\<close>:
  \<^verbatim>\<open>
    if self.previous_run_log:
        node_step_log_name = node.get_step_log_name(map_variable=map_variable)
        previous_node_log = None
        try:
            previous_node_log, _ = self.previous_run_log.search_step_by_internal_name(node_step_log_name)
        except exceptions.StepLogNotFoundError:
            return True
        step_log = self.run_log_store.get_step_log(node.get_step_log_name(map_variable), self.run_id)
        if previous_node_log.status == defaults.SUCCESS:
            step_log.status = defaults.SUCCESS
            step_log.message = 'Node execution successful in previous run, skipping it'
            self.run_log_store.add_step_log(step_log, self.run_id)
            return False
        self.previous_run_log = None
    return True
  \<close>
  It returns the answer and the executor, whose store or previous-run pointer it may have
  changed.
\<close>

definition is_eligible_for_rerun ::
    "executor \<Rightarrow> node \<Rightarrow> map_variable \<Rightarrow> error + (bool \<times> executor)" where
  "is_eligible_for_rerun ex n map_variable =
     (case previous_run_log ex of
        None \<Rightarrow> Inr (True, ex)
      | Some prev \<Rightarrow>
     (case get_step_log_name n map_variable of
        Inl e \<Rightarrow> Inl e
      | Inr node_step_log_name \<Rightarrow>
     (case search_step_by_internal_name prev node_step_log_name of
        Inl e \<Rightarrow> (if e = StepLogNotFoundError then Inr (True, ex) else Inl e)
      | Inr previous_node_log \<Rightarrow>
     (case get_step_log (run_log_store ex) node_step_log_name (ex_run_id ex) of
        Inl e \<Rightarrow> Inl e
      | Inr step_log \<Rightarrow>
          if step_status previous_node_log = SUCCESS then
            (case add_step_log (run_log_store ex)
                    (step_log\<lparr>step_status := SUCCESS,
                       step_message := ''Node execution successful in previous run, skipping it''\<rparr>)
                    (ex_run_id ex) of
               Inl e \<Rightarrow> Inl e
             | Inr store' \<Rightarrow> Inr (False, ex\<lparr>run_log_store := store'\<rparr>))
          else Inr (True, ex\<lparr>previous_run_log := None\<rparr>)))))"

text \<open>
  \<^verbatim>\<open>execute_from_graph\<close>:
  \<^verbatim>\<open>
    step_log = self.run_log_store.create_step_log(node.name, node.get_step_log_name(map_variable))
    self.add_code_identities(node=node, step_log=step_log)
    step_log.step_type = node.node_type
    step_log.status = defaults.PROCESSING
    if node.node_type in ['success', 'fail']:
        self.run_log_store.add_step_log(step_log, self.run_id)
        self.execute_node(node, map_variable=map_variable, **kwargs)
        return
    if not self.is_eligible_for_rerun(node, map_variable=map_variable):
        step_log.mock = True
        step_log.status = defaults.SUCCESS
        self.run_log_store.add_step_log(step_log, self.run_id)
        return
    if node.node_type in ['parallel', 'dag', 'map']:
        self.run_log_store.add_step_log(step_log, self.run_id)
        node.execute_as_graph(self, map_variable=map_variable, **kwargs)
        return
    self.run_log_store.add_step_log(step_log, self.run_id)
    self.trigger_job(node=node, map_variable=map_variable, **kwargs)
  \<close>
\<close>

definition new_step_log :: "collaborators \<Rightarrow> node \<Rightarrow> string \<Rightarrow> step_log" where
  "new_step_log co n nm =
     (create_step_log (name n) nm)
       \<lparr>code_identities := code_identities (create_step_log (name n) nm) @ [git_code_identity co],
        step_type := node_type n, step_status := PROCESSING\<rparr>"

definition add_step_log_then ::
    "executor \<Rightarrow> step_log \<Rightarrow> (executor \<Rightarrow> error + executor) \<Rightarrow> error + executor" where
  "add_step_log_then ex step_log continue =
     (case add_step_log (run_log_store ex) step_log (ex_run_id ex) of
        Inl e \<Rightarrow> Inl e
      | Inr store' \<Rightarrow> continue (ex\<lparr>run_log_store := store'\<rparr>))"

definition execute_from_graph ::
    "collaborators \<Rightarrow> node \<Rightarrow> map_variable \<Rightarrow> executor \<Rightarrow> error + executor" where
  "execute_from_graph co n map_variable ex =
     (case get_step_log_name n map_variable of
        Inl e \<Rightarrow> Inl e
      | Inr nm \<Rightarrow>
          (let step_log = new_step_log co n nm in
           if node_type n \<in> {''success'', ''fail''} then
             add_step_log_then ex step_log (execute_node co n map_variable)
           else
             (case is_eligible_for_rerun ex n map_variable of
                Inl e \<Rightarrow> Inl e
              | Inr (eligible, ex1) \<Rightarrow>
                  if \<not> eligible then
                    add_step_log_then ex1 (step_log\<lparr>mock := True, step_status := SUCCESS\<rparr>) Inr
                  else if node_type n \<in> {''parallel'', ''dag'', ''map''} then
                    add_step_log_then ex1 step_log (execute_as_graph co n map_variable)
                  else
                    add_step_log_then ex1 step_log (trigger_job co n map_variable))))"

text \<open>
  \<^verbatim>\<open>execute_graph\<close>:
  \<^verbatim>\<open>
    current_node = dag.start_at
    previous_node = None
    while True:
        working_on = dag.get_node_by_name(current_node)
        if previous_node == current_node:
            raise Exception('Potentially running in a infinite loop')
        previous_node = current_node
        self.execute_from_graph(working_on, map_variable=map_variable, **kwargs)
        status, next_node_name = self.get_status_and_next_node_name(
            current_node=working_on, dag=dag, map_variable=map_variable)
        if status == defaults.TRIGGERED:
            break
        if working_on.node_type in ['success', 'fail']:
            break
        current_node = next_node_name
    run_log = self.run_log_store.get_branch_log(working_on.get_branch_log_name(map_variable), self.run_id)
  \<close>
  The names of the current and the previous node are Python values: the next node name
  comes from the configuration and may be \<open>None\<close>. No node is named by a value that is
  not a string. The loop may run forever, so its result is an option: \<open>None\<close> when it
  does not return.
\<close>

definition get_node_by_value :: "graph \<Rightarrow> yaml \<Rightarrow> error + node" where
  "get_node_by_value dag v =
     (case v of YStr nm \<Rightarrow> get_node_by_name dag nm | _ \<Rightarrow> Inl NodeNotFoundError)"

partial_function (option) execute_graph_loop ::
    "collaborators \<Rightarrow> graph \<Rightarrow> map_variable \<Rightarrow> yaml \<Rightarrow> yaml \<Rightarrow> executor
       \<Rightarrow> (error + (node \<times> executor)) option" where
  "execute_graph_loop co dag map_variable current_node previous_node ex =
     (case get_node_by_value dag current_node of
        Inl e \<Rightarrow> Some (Inl e)
      | Inr working_on \<Rightarrow>
          if previous_node = current_node then
            Some (Inl (Exception ''Potentially running in a infinite loop''))
          else
            (case execute_from_graph co working_on map_variable ex of
               Inl e \<Rightarrow> Some (Inl e)
             | Inr ex1 \<Rightarrow>
                 (case get_status_and_next_node_name ex1 working_on dag map_variable of
                    Inl e \<Rightarrow> Some (Inl e)
                  | Inr (status, next_node_name) \<Rightarrow>
                      if status = TRIGGERED then Some (Inr (working_on, ex1))
                      else if node_type working_on \<in> {''success'', ''fail''} then
                        Some (Inr (working_on, ex1))
                      else execute_graph_loop co dag map_variable next_node_name current_node ex1)))"

definition execute_graph ::
    "collaborators \<Rightarrow> graph \<Rightarrow> map_variable \<Rightarrow> executor \<Rightarrow> (error + executor) option" where
  "execute_graph co dag map_variable ex =
     (case execute_graph_loop co dag map_variable (YStr (start_at dag)) YNone ex of
        None \<Rightarrow> None
      | Some (Inl e) \<Rightarrow> Some (Inl e)
      | Some (Inr (working_on, ex1)) \<Rightarrow>
          (case get_branch_log_name working_on map_variable of
             Inl e \<Rightarrow> Some (Inl e)
           | Inr nm \<Rightarrow>
               (case get_branch_log (run_log_store ex1) nm (ex_run_id ex1) of
                  Inl e \<Rightarrow> Some (Inl e)
                | Inr run_log \<Rightarrow> Some (Inr ex1))))"

text \<open>
  \<^verbatim>\<open>LocalExecutor.trigger_job\<close> prepares the services, which does not touch the logs,
  and calls \<^verbatim>\<open>execute_node\<close>.
\<close>

definition local_executor :: "collaborators \<Rightarrow> collaborators" where
  "local_executor co = co\<lparr>trigger_job := execute_node co\<rparr>"



section \<open>Pipeline entry point\<close>

text \<open>
  \<^verbatim>\<open>pipeline.execute\<close>, from the prepared executor on:
  \<^verbatim>\<open>
    previous_run_log = None
    if use_cached or use_cached_force:
        previous_run_log = mode_executor.run_log_store.get_run_log_by_id(run_id=re_run_id, full=True)
        if previous_run_log.dag_hash != mode_executor.dag_hash:
            if not use_cached_force:
                raise Exception(message)
        mode_executor.previous_run_log = previous_run_log
    mode_executor.prepare_for_graph_execution()
    mode_executor.execute_graph(dag=mode_executor.dag)
    send_return_code(mode_executor)
  \<close>
  \<open>mode_executor\<close> is what \<^verbatim>\<open>prepare_configurations\<close> returns; the three calls that
  prepare, traverse and report are the parameter \<open>traverse\<close>. The message is a literal
  continued over two lines: it keeps the 28 spaces that indent its second line.
\<close>

definition dag_hash_message :: string where
  "dag_hash_message =
     ''Not using the cached run as the dag hash did not match, '' @ replicate 28 (CHR '' '')
       @ ''use --use-cached-force if you want to force''"

definition execute ::
    "(executor \<Rightarrow> error + 'a) \<Rightarrow> executor \<Rightarrow> string \<Rightarrow> bool \<Rightarrow> bool \<Rightarrow> error + 'a" where
  "execute traverse mode_executor re_run_id use_cached use_cached_force =
     (if use_cached \<or> use_cached_force then
        (case get_run_log_by_id (run_log_store mode_executor) re_run_id of
           Inl e \<Rightarrow> Inl e
         | Inr prev \<Rightarrow>
             if dag_hash prev \<noteq> ex_dag_hash mode_executor \<and> \<not> use_cached_force
             then Inl (Exception dag_hash_message)
             else traverse (mode_executor\<lparr>previous_run_log := Some prev\<rparr>))
      else traverse mode_executor)"

section \<open>An example pipeline\<close>

text \<open>
  A pipeline \<open>t1 \<rightarrow> success\<close> with a failure handler \<open>handler \<rightarrow> success\<close>, its
  nodes at the root, and run logs
  of it: the concrete inputs at which the theorems below are evaluated.
\<close>

definition node_t1 :: node where
  "node_t1 = \<lparr>name = ''t1'', internal_name = ''t1'', internal_branch_name = [],
     node_type = ''task'',
     config = [(''command'', YStr ''echo hi''), (''next'', YStr ''success''),
               (''on_failure'', YStr ''handler'')]\<rparr>"

definition node_success :: node where
  "node_success = \<lparr>name = ''success'', internal_name = ''success'', internal_branch_name = [],
     node_type = ''success'', config = []\<rparr>"

definition node_fail :: node where
  "node_fail = \<lparr>name = ''fail'', internal_name = ''fail'', internal_branch_name = [],
     node_type = ''fail'', config = []\<rparr>"

definition node_handler :: node where
  "node_handler = \<lparr>name = ''handler'', internal_name = ''handler'', internal_branch_name = [],
     node_type = ''task'',
     config = [(''command'', YStr ''echo failed''), (''next'', YStr ''success'')]\<rparr>"

definition example_dag :: graph where
  "example_dag = \<lparr>start_at = ''t1'', graph_internal_branch_name = [],
     nodes = [node_t1, node_handler, node_success, node_fail]\<rparr>"

definition step_t1 :: "status \<Rightarrow> step_log" where
  "step_t1 st = (create_step_log ''t1'' ''t1'')\<lparr>step_status := st\<rparr>"

definition run_log_with :: "string \<Rightarrow> string \<Rightarrow> step_log list \<Rightarrow> run_log" where
  "run_log_with rid h sls =
     \<lparr>run_id = rid, dag_hash = h, run_status = PROCESSING, parameters = Map.empty,
      steps = sls, branches = []\<rparr>"

definition executor_with :: "run_log list \<Rightarrow> run_log option \<Rightarrow> executor" where
  "executor_with store prev =
     \<lparr>ex_run_id = ''run2'', ex_dag_hash = ''hash1'', run_log_store = store,
      previous_run_log = prev\<rparr>"

text \<open>
  A parallel step \<open>par\<close> with the branches \<open>a\<close> and \<open>b\<close>. In \<open>run_a_fails\<close> the branch
  \<open>a\<close> runs to its fail node and the branch \<open>b\<close> is still in flight when the branches
  are joined.
\<close>

definition example_parallel :: "string parallel_node" where
  "example_parallel =
     \<lparr>par_node = \<lparr>name = ''par'', internal_name = ''par'', internal_branch_name = [],
                  node_type = ''parallel'',
                  config = [(''branches'', YDict [(''a'', YDict []), (''b'', YDict [])]),
                            (''next'', YStr ''success'')]\<rparr>,
      par_branches = [(''par.a'', ''par.a''), (''par.b'', ''par.b'')]\<rparr>"

definition fail_in_a :: node where
  "fail_in_a = \<lparr>name = ''fail'', internal_name = ''par.a.fail'', internal_branch_name = ''par.a'',
     node_type = ''fail'', config = []\<rparr>"

definition run_a_fails ::
    "(string \<times> string) list \<Rightarrow> map_variable \<Rightarrow> executor \<Rightarrow> error + executor" where
  "run_a_fails bs map_variable ex = Inr (snd (fail_node_execute ex fail_in_a False map_variable))"

definition step_par :: "status \<Rightarrow> step_log" where
  "step_par st = (create_step_log ''par'' ''par'')\<lparr>step_type := ''parallel'', step_status := st\<rparr>"

definition example_parallel_done :: executor where
  "example_parallel_done =
     executor_with
       [(run_log_with ''run2'' ''hash1'' [step_par FAIL])
          \<lparr>branches := [\<lparr>branch_internal_name = ''par.a'', branch_status = FAIL\<rparr>,
                        \<lparr>branch_internal_name = ''par.b'', branch_status = PROCESSING\<rparr>]\<rparr>]
       None"

text \<open>
  A map step \<open>m\<close> over the parameter \<open>xs\<close>, in a run whose parameter \<open>xs\<close> is the string
  \<open>abc\<close> and not a list.
\<close>

definition example_map_config :: "(string \<times> yaml) list" where
  "example_map_config =
     [(''iterate_on'', YStr ''xs''), (''iterate_as'', YStr ''x''),
      (''branch'', YDict []), (''next'', YStr ''success'')]"

definition example_map :: "string map_node" where
  "example_map =
     \<lparr>map_base = \<lparr>name = ''m'', internal_name = ''m'', internal_branch_name = [],
                  node_type = ''map'', config = example_map_config\<rparr>,
      iterate_on = YStr ''xs'', iterate_as = YStr ''x'', map_branch = ''m.%''\<rparr>"

definition executor_xs_not_list :: executor where
  "executor_xs_not_list =
     executor_with
       [(run_log_with ''run2'' ''hash1'' [])\<lparr>parameters := [''xs'' \<mapsto> YStr ''abc'']\<rparr>] None"

text \<open>
  Collaborators for the example: the command of a task fails on its first two attempts
  and succeeds from the third on, no node asks for catalog items, and jobs are run in
  process, as the local executor does (\<^verbatim>\<open>LocalExecutor.trigger_job\<close> calls
  \<^verbatim>\<open>execute_node\<close>).
\<close>

definition example_collaborators :: collaborators where
  "example_collaborators =
     \<lparr>builtin_int = py_int_with (\<lambda>s. Inl ValueError),
      execute_command = (\<lambda>i command mv. if i < 2 then Some (Exception ''exit status 1'') else None),
      get_tracked_data = (\<lambda>i. Map.empty),
      get_user_set_parameters = (\<lambda>i. Map.empty),
      catalog_items = (\<lambda>n sl stage synced. Inr None),
      git_code_identity = ''sha'',
      trigger_job = (\<lambda>n mv ex. Inl NotImplementedError),
      execute_as_graph = (\<lambda>n mv ex. Inl NotImplementedError)\<rparr>"

definition node_t1_retry :: node where
  "node_t1_retry = node_t1\<lparr>config := [(''command'', YStr ''echo hi''), (''next'', YStr ''success''),
                                        (''retry'', YInt 3)]\<rparr>"

definition step_t1_retried :: step_log where
  "step_t1_retried =
     (step_t1 SUCCESS)\<lparr>attempts := [\<lparr>attempt_numner = 0, attempt_status = FAIL\<rparr>,
                                     \<lparr>attempt_numner = 1, attempt_status = FAIL\<rparr>,
                                     \<lparr>attempt_numner = 2, attempt_status = SUCCESS\<rparr>]\<rparr>"

text \<open>
  A re-run: the previous run \<open>run1\<close> of the example pipeline succeeded in every step,
  the run \<open>run2\<close> has just been set up with the same DAG hash and has no Step Log yet.
\<close>

definition previous_run :: run_log where
  "previous_run =
     (run_log_with ''run1'' ''hash1''
        [step_t1 SUCCESS,
         (create_step_log ''success'' ''success'')
           \<lparr>step_type := ''success'', step_status := SUCCESS\<rparr>])
       \<lparr>run_status := SUCCESS\<rparr>"

definition rerun_executor :: executor where
  "rerun_executor =
     executor_with [previous_run, run_log_with ''run2'' ''hash1'' []] (Some previous_run)"


definition step_success :: step_log where
  "step_success = (create_step_log ''success'' ''success'')
     \<lparr>step_type := ''success'', step_status := SUCCESS\<rparr>"




definition step_success_executed :: step_log where
  "step_success_executed =
     step_success\<lparr>code_identities := [''sha''],
                  attempts := [\<lparr>attempt_numner = 0, attempt_status = SUCCESS\<rparr>]\<rparr>"


text \<open>
  A task whose \<open>retry\<close> is negative, in a pipeline \<open>t1 \<rightarrow> success\<close> run for the first
  time; the Step Log of the task as the traversal leaves it, and the executor at the
  end of the traversal.
\<close>

definition node_t1_negative_retry :: node where
  "node_t1_negative_retry =
     node_t1\<lparr>config := [(''command'', YStr ''echo hi''), (''next'', YStr ''success''),
                        (''retry'', YInt (- 1))]\<rparr>"

definition negative_retry_dag :: graph where
  "negative_retry_dag = \<lparr>start_at = ''t1'', graph_internal_branch_name = [],
     nodes = [node_t1_negative_retry, node_success, node_fail]\<rparr>"

definition first_run_executor :: executor where
  "first_run_executor = executor_with [run_log_with ''run2'' ''hash1'' []] None"

definition step_t1_not_run :: step_log where
  "step_t1_not_run = (step_t1 PROCESSING)\<lparr>code_identities := [''sha'']\<rparr>"

definition negative_retry_after_t1 :: executor where
  "negative_retry_after_t1 =
     executor_with [run_log_with ''run2'' ''hash1'' [step_t1_not_run]] None"

definition negative_retry_done :: executor where
  "negative_retry_done =
     executor_with
       [(run_log_with ''run2'' ''hash1'' [step_t1_not_run, step_success_executed])
          \<lparr>run_status := SUCCESS\<rparr>]
       None"

section \<open>Helper lemmas\<close>

lemma replace_first_leftmost:
  "c \<notin> set pre \<Longrightarrow> replace_first c new (pre @ c # post) = pre @ new @ post"
  by (induction pre) auto

lemma replace_first_absent: "c \<notin> set s \<Longrightarrow> replace_first c new s = s"
  by (induction s) auto

lemma find_upsert:
  "find (\<lambda>y. key y = k) (upsert key x ys)
     = (if key x = k then Some x else find (\<lambda>y. key y = k) ys)"
  by (induction ys) auto

lemma find_key: "find (\<lambda>y. key y = k) ys = Some x \<Longrightarrow> key x = k"
  by (induction ys) (auto split: if_splits)

lemma get_run_log_by_id_run_id: "get_run_log_by_id store rid = Inr rl \<Longrightarrow> run_id rl = rid"
  by (auto simp: get_run_log_by_id_def split: option.splits dest: find_key[of run_id])

lemma get_run_log_by_id_put:
  "get_run_log_by_id (put_run_log store rl) rid
     = (if run_id rl = rid then Inr rl else get_run_log_by_id store rid)"
  by (simp add: get_run_log_by_id_def put_run_log_def find_upsert)

lemma get_step_log_internal_name:
  "get_step_log store nm rid = Inr sl \<Longrightarrow> step_internal_name sl = nm"
  by (auto simp: get_step_log_def search_step_by_internal_name_def
           split: sum.splits option.splits dest: find_key[of step_internal_name])

lemma add_step_log_Inr:
  "add_step_log store sl rid = Inr store' \<Longrightarrow>
   \<exists>rl. get_run_log_by_id store rid = Inr rl \<and> run_id rl = rid
      \<and> store' = put_run_log store (rl\<lparr>steps := upsert step_internal_name sl (steps rl)\<rparr>)"
  by (auto simp: add_step_log_def split: sum.splits dest: get_run_log_by_id_run_id)

lemma get_step_log_add_step_log:
  assumes "add_step_log store sl rid = Inr store'"
  shows "get_step_log store' nm rid
     = (if step_internal_name sl = nm then Inr sl else get_step_log store nm rid)"
proof -
  from add_step_log_Inr[OF assms] obtain rl where
    rl: "get_run_log_by_id store rid = Inr rl" "run_id rl = rid"
    "store' = put_run_log store (rl\<lparr>steps := upsert step_internal_name sl (steps rl)\<rparr>)"
    by blast
  show ?thesis
    by (simp add: rl get_step_log_def get_run_log_by_id_put
                  search_step_by_internal_name_def find_upsert)
qed

lemma get_branch_log_set_status:
  assumes "get_branch_log store nm rid = Inr l"
  shows "\<exists>store'. add_branch_log store (set_log_status st l) rid = Inr store'
           \<and> get_branch_log store' nm rid = Inr (set_log_status st l)"
proof (cases l)
  case (IsRunLog rl)
  with assms have "nm = []" "get_run_log_by_id store rid = Inr rl"
    by (auto simp: get_branch_log_def split: sum.splits if_splits option.splits)
  moreover from this have "run_id rl = rid" by (simp add: get_run_log_by_id_run_id)
  ultimately show ?thesis using IsRunLog
    by (simp add: get_branch_log_def get_run_log_by_id_put)
next
  case (IsBranchLog bl)
  with assms obtain rl where rl: "get_run_log_by_id store rid = Inr rl" "nm \<noteq> []"
      "find (\<lambda>b. branch_internal_name b = nm) (branches rl) = Some bl"
    by (auto simp: get_branch_log_def split: sum.splits if_splits option.splits)
  from rl have "run_id rl = rid" "branch_internal_name bl = nm"
    by (auto simp: get_run_log_by_id_run_id dest: find_key[of branch_internal_name])
  then show ?thesis using IsBranchLog rl
    by (simp add: get_branch_log_def get_run_log_by_id_put find_upsert)
qed

lemma log_status_add_step_log:
  assumes "add_step_log store sl rid = Inr store'"
  shows "map_sum id log_status (get_branch_log store' nm rid)
           = map_sum id log_status (get_branch_log store nm rid)"
proof -
  from add_step_log_Inr[OF assms] obtain rl where
    rl: "get_run_log_by_id store rid = Inr rl" "run_id rl = rid"
    "store' = put_run_log store (rl\<lparr>steps := upsert step_internal_name sl (steps rl)\<rparr>)"
    by blast
  show ?thesis
    by (simp add: rl get_branch_log_def get_run_log_by_id_put split: option.splits)
qed

lemma child_statuses_add_step_log:
  assumes "add_step_log store sl rid = Inr store'"
  shows "child_statuses store' rid mv names = child_statuses store rid mv names"
proof (induction names)
  case Nil
  show ?case by simp
next
  case (Cons a names)
  show ?case
  proof (cases "resolve_map_placeholders a mv")
    case (Inl e)
    then show ?thesis by simp
  next
    case (Inr nm)
    from log_status_add_step_log[OF assms, of nm]
    show ?thesis using Inr Cons
      by (cases "get_branch_log store' nm rid"; cases "get_branch_log store nm rid")
         (auto split: sum.splits)
  qed
qed

lemma find_status_of_branches_child_statuses:
  "find_status_of_branches ex mv names (ok, w) = Inr res \<Longrightarrow>
   \<exists>sts. child_statuses (run_log_store ex) (ex_run_id ex) mv names = Inr sts
       \<and> fst res = (ok \<and> FAIL \<notin> set sts) \<and> snd res = (w \<or> PROCESSING \<in> set sts)"
proof (induction names arbitrary: ok w)
  case Nil
  then show ?case by auto
next
  case (Cons a names)
  then show ?case
    by (fastforce split: sum.splits if_splits)
qed

lemma update_step_status_Inr:
  assumes "update_step_status ex n mv res = Inr ex'"
  shows "\<exists>nm sl. get_step_log_name n mv = Inr nm
           \<and> get_step_log (run_log_store ex') nm (ex_run_id ex') = Inr sl
           \<and> step_status sl = collate_status (fst res) (snd res)
           \<and> ex_run_id ex' = ex_run_id ex
           \<and> child_statuses (run_log_store ex') (ex_run_id ex') mv names
               = child_statuses (run_log_store ex) (ex_run_id ex) mv names"
proof -
  from assms obtain nm sl store' where
    a: "resolve_map_placeholders (internal_name n) mv = Inr nm"
       "get_step_log (run_log_store ex) nm (ex_run_id ex) = Inr sl"
       "add_step_log (run_log_store ex) (sl\<lparr>step_status := collate_status (fst res) (snd res)\<rparr>)
          (ex_run_id ex) = Inr store'"
       "ex' = ex\<lparr>run_log_store := store'\<rparr>"
    by (auto simp: update_step_status_def split: sum.splits)
  have "step_internal_name sl = nm" using a(2) by (rule get_step_log_internal_name)
  then show ?thesis
    using a get_step_log_add_step_log[OF a(3), of nm] child_statuses_add_step_log[OF a(3)]
    by (simp add: get_step_log_name_def)
qed

lemma reconciled_collate:
  "reconciled sts (collate_status (True \<and> FAIL \<notin> set sts) (False \<or> PROCESSING \<in> set sts))"
  by (auto simp: collate_status_def reconciled_def)

lemma join_and_update:
  assumes "find_status_of_branches ex2 mv names (True, False) = Inr res"
    and "update_step_status ex2 n mv res = Inr ex'"
  shows "\<exists>sts nm sl.
           child_statuses (run_log_store ex') (ex_run_id ex') mv names = Inr sts
         \<and> get_step_log_name n mv = Inr nm
         \<and> get_step_log (run_log_store ex') nm (ex_run_id ex') = Inr sl
         \<and> reconciled sts (step_status sl)"
proof -
  from find_status_of_branches_child_statuses[OF assms(1)] obtain sts where
    s: "child_statuses (run_log_store ex2) (ex_run_id ex2) mv names = Inr sts"
       "fst res = (True \<and> FAIL \<notin> set sts)" "snd res = (False \<or> PROCESSING \<in> set sts)"
    by blast
  from update_step_status_Inr[OF assms(2), of names] obtain nm sl where
    u: "get_step_log_name n mv = Inr nm"
       "get_step_log (run_log_store ex') nm (ex_run_id ex') = Inr sl"
       "step_status sl = collate_status (fst res) (snd res)"
       "child_statuses (run_log_store ex') (ex_run_id ex') mv names
          = child_statuses (run_log_store ex2) (ex_run_id ex2) mv names"
    by blast
  have "reconciled sts (step_status sl)"
    unfolding u(3) s(2) s(3) by (rule reconciled_collate)
  with s(1) u show ?thesis by auto
qed

lemma parallel_reconciled:
  assumes "parallel_execute_as_graph run_branches pn ex mv = Inr ex'"
  shows "\<exists>sts nm sl.
           child_statuses (run_log_store ex') (ex_run_id ex') mv (map fst (par_branches pn)) = Inr sts
         \<and> get_step_log_name (par_node pn) mv = Inr nm
         \<and> get_step_log (run_log_store ex') nm (ex_run_id ex') = Inr sl
         \<and> reconciled sts (step_status sl)"
proof -
  from assms obtain ex2 res where
    "find_status_of_branches ex2 mv (map fst (par_branches pn)) (True, False) = Inr res"
    "update_step_status ex2 (par_node pn) mv res = Inr ex'"
    by (auto simp: parallel_execute_as_graph_def split: sum.splits)
  then show ?thesis by (rule join_and_update)
qed

lemma map_reconciled:
  assumes "map_execute_as_graph py_str run_branches mn ex mv = Inr ex'"
  shows "\<exists>vs ex1 mv' ex2 sts nm sl.
           get_iterate_on mn ex = Inr vs
         \<and> run_branches vs mv ex1 = Inr (mv', ex2)
         \<and> child_statuses (run_log_store ex') (ex_run_id ex') mv'
              (map (\<lambda>v. internal_name (map_base mn) @ ''.'' @ py_str v) vs) = Inr sts
         \<and> get_step_log_name (map_base mn) mv' = Inr nm
         \<and> get_step_log (run_log_store ex') nm (ex_run_id ex') = Inr sl
         \<and> reconciled sts (step_status sl)"
proof -
  from assms obtain vs ex1 mv' ex2 res where
    a: "get_iterate_on mn ex = Inr vs" "run_branches vs mv ex1 = Inr (mv', ex2)"
    and b: "find_status_of_branches ex2 mv'
         (map (\<lambda>v. internal_name (map_base mn) @ ''.'' @ py_str v) vs) (True, False) = Inr res"
       "update_step_status ex2 (map_base mn) mv' res = Inr ex'"
    by (auto simp: map_execute_as_graph_def Let_def split: sum.splits prod.splits)
  from join_and_update[OF b] a show ?thesis by blast
qed

lemma dag_reconciled:
  assumes "dag_execute_as_graph run_branch dn ex mv = Inr ex'"
  shows "\<exists>sts nm sl.
           child_statuses (run_log_store ex') (ex_run_id ex') mv
              [internal_name (dag_base dn) @ ''.'' @ DAG_BRANCH_NAME] = Inr sts
         \<and> get_step_log_name (dag_base dn) mv = Inr nm
         \<and> get_step_log (run_log_store ex') nm (ex_run_id ex') = Inr sl
         \<and> reconciled sts (step_status sl)"
proof -
  from assms obtain ex2 res where
    "find_status_of_branches ex2 mv [internal_name (dag_base dn) @ ''.'' @ DAG_BRANCH_NAME]
        (True, False) = Inr res"
    "update_step_status ex2 (dag_base dn) mv res = Inr ex'"
    by (auto simp: dag_execute_as_graph_def Let_def split: sum.splits)
  then show ?thesis by (rule join_and_update)
qed

lemma node_execute_task:
  "node_type n = ''task'' \<Longrightarrow>
   \<exists>al. node_execute co i ex n m mv = Inr (al, ex)
      \<and> (attempt_status al = SUCCESS \<or> attempt_status al = FAIL)"
  by (auto simp: node_execute_def task_node_execute_def Let_def create_attempt_log_def
           split: option.splits)

lemma set_parameters_Inr:
  "get_run_log_by_id store rid = Inr rl \<Longrightarrow>
   \<exists>store'. set_parameters store rid ps = Inr store'
     \<and> get_run_log_by_id store' rid = Inr (rl\<lparr>parameters := parameters rl ++ ps\<rparr>)"
  by (auto simp: set_parameters_def get_run_log_by_id_put dest: get_run_log_by_id_run_id)

lemma retry_loop_done: "\<not> a < mx \<Longrightarrow> retry_loop co n mv m mx a sl ex = (sl, ex)"
  by (subst retry_loop.simps) simp

lemma retry_loop_failed_attempt:
  assumes "a < mx" and "node_execute co a ex n m mv = Inr (al, ex1)"
    and "attempt_status al = FAIL"
  shows "retry_loop co n mv m mx a sl ex
           = retry_loop co n mv m mx (a + 1)
               (snd (after_exception mx a
                  (sl\<lparr>attempts := attempts sl @ [al\<lparr>attempt_numner := a\<rparr>]\<rparr>))) ex1"
  using assms by (subst retry_loop.simps) (simp add: Let_def)

lemma retry_loop_good_attempt:
  assumes "a < mx" and "node_execute co a ex n m mv = Inr (al, ex1)"
    and "attempt_status al \<noteq> FAIL"
    and "set_parameters (run_log_store ex1) (ex_run_id ex1) (get_user_set_parameters co a)
           = Inr store'"
  shows "retry_loop co n mv m mx a sl ex
           = (sl\<lparr>attempts := attempts sl @ [al\<lparr>attempt_numner := a\<rparr>],
                 step_status := SUCCESS, user_defined_metrics := get_tracked_data co a\<rparr>,
              ex1\<lparr>run_log_store := store'\<rparr>)"
  using assms by (subst retry_loop.simps) (simp add: Let_def)

lemma retry_loop_task:
  assumes t: "node_type n = ''task''"
    and g: "get_run_log_by_id (run_log_store ex) (ex_run_id ex) = Inr rl"
  shows "retry_loop co n mv m mx a sl ex = (sl', ex') \<Longrightarrow>
    \<exists>new. attempts sl' = attempts sl @ new
      \<and> (a < mx \<longrightarrow> int (length new) \<le> mx - a
                 \<and> (step_status sl' = SUCCESS \<or> step_status sl' = FAIL)
                 \<and> (step_status sl' = SUCCESS \<longleftrightarrow> attempt_status (last new) = SUCCESS)
                 \<and> (step_status sl' = FAIL \<longrightarrow>
                       int (length new) = mx - a \<and> (\<forall>x \<in> set new. attempt_status x = FAIL))
                 \<and> new \<noteq> [])
      \<and> (\<not> a < mx \<longrightarrow> sl' = sl)
      \<and> step_internal_name sl' = step_internal_name sl
      \<and> data_catalogs sl' = data_catalogs sl
      \<and> ex_run_id ex' = ex_run_id ex
      \<and> (\<exists>rl'. get_run_log_by_id (run_log_store ex') (ex_run_id ex) = Inr rl'
               \<and> steps rl' = steps rl \<and> branches rl' = branches rl)"
proof (induction "nat (mx - a)" arbitrary: a sl)
  case 0
  then have "\<not> a < mx" by simp
  with 0 g show ?case by (simp add: retry_loop_done)
next
  case (Suc k)
  then have lt: "a < mx" by simp
  from node_execute_task[OF t] obtain al where
    al: "node_execute co a ex n m mv = Inr (al, ex)"
        "attempt_status al = SUCCESS \<or> attempt_status al = FAIL"
    by blast
  show ?case
  proof (cases "attempt_status al = FAIL")
    case f: True
    define sl2 where "sl2 = snd (after_exception mx a
                  (sl\<lparr>attempts := attempts sl @ [al\<lparr>attempt_numner := a\<rparr>]\<rparr>))"
    have r: "retry_loop co n mv m mx (a + 1) sl2 ex = (sl', ex')"
      using Suc.prems retry_loop_failed_attempt[OF lt al(1) f, of sl] by (simp add: sl2_def)
    have k: "k = nat (mx - (a + 1))" using Suc.hyps(2) by simp
    from Suc.hyps(1)[OF k r] obtain new where new: "attempts sl' = attempts sl2 @ new"
        "a + 1 < mx \<longrightarrow> int (length new) \<le> mx - (a + 1)
                 \<and> (step_status sl' = SUCCESS \<or> step_status sl' = FAIL)
                 \<and> (step_status sl' = SUCCESS \<longleftrightarrow> attempt_status (last new) = SUCCESS)
                 \<and> (step_status sl' = FAIL \<longrightarrow>
                       int (length new) = mx - (a + 1) \<and> (\<forall>x \<in> set new. attempt_status x = FAIL))
                 \<and> new \<noteq> []"
        "\<not> a + 1 < mx \<longrightarrow> sl' = sl2"
        "step_internal_name sl' = step_internal_name sl2"
        "data_catalogs sl' = data_catalogs sl2"
        "ex_run_id ex' = ex_run_id ex"
        "\<exists>rl'. get_run_log_by_id (run_log_store ex') (ex_run_id ex) = Inr rl'
               \<and> steps rl' = steps rl \<and> branches rl' = branches rl"
      by blast
    have a2: "attempts sl2 = attempts sl @ [al\<lparr>attempt_numner := a\<rparr>]"
        "step_internal_name sl2 = step_internal_name sl"
        "data_catalogs sl2 = data_catalogs sl"
        "\<not> a + 1 < mx \<longrightarrow> step_status sl2 = FAIL \<and> a + 1 = mx"
      using lt by (auto simp: sl2_def after_exception_def)
    show ?thesis
    proof (intro exI[of _ "al\<lparr>attempt_numner := a\<rparr> # new"] conjI impI)
      show "attempts sl' = attempts sl @ al\<lparr>attempt_numner := a\<rparr> # new"
        using new(1) a2 by simp
    qed (use lt f new a2 in \<open>auto split: if_splits\<close>)
  next
    case s: False
    from set_parameters_Inr[OF g] obtain store' where
      st: "set_parameters (run_log_store ex) (ex_run_id ex) (get_user_set_parameters co a)
             = Inr store'"
          "get_run_log_by_id store' (ex_run_id ex)
             = Inr (rl\<lparr>parameters := parameters rl ++ get_user_set_parameters co a\<rparr>)"
      by blast
    from retry_loop_good_attempt[OF lt al(1) s st(1), of sl] Suc.prems
    have e: "sl' = sl\<lparr>attempts := attempts sl @ [al\<lparr>attempt_numner := a\<rparr>],
                 step_status := SUCCESS, user_defined_metrics := get_tracked_data co a\<rparr>"
      "ex' = ex\<lparr>run_log_store := store'\<rparr>"
      by simp_all
    show ?thesis
      by (rule exI[of _ "[al\<lparr>attempt_numner := a\<rparr>]"]) (use e lt al(2) s st(2) in auto)
  qed
qed

lemma sync_catalog_Inr:
  "sync_catalog co n sl stage synced = Inr (dc, sl1) \<Longrightarrow>
   attempts sl1 = attempts sl \<and> step_status sl1 = step_status sl
   \<and> step_internal_name sl1 = step_internal_name sl \<and> mock sl1 = mock sl"
  by (auto simp: sync_catalog_def split: sum.splits option.splits if_splits)

lemma get_step_log_run_log:
  "get_step_log store nm rid = Inr sl \<Longrightarrow> \<exists>rl. get_run_log_by_id store rid = Inr rl"
  by (auto simp: get_step_log_def split: sum.splits)




lemma search_step_steps:
  "steps rl' = steps rl \<Longrightarrow>
   search_step_by_internal_name rl' nm = search_step_by_internal_name rl nm"
  by (simp add: search_step_by_internal_name_def)











section \<open>Maximum attempts\<close>

text \<open>
  Claim C10. When the configuration sets \<open>retry\<close> to a value whose integer conversion is
  0, \<open>get_max_attempts\<close> returns 1, as it does when \<open>retry\<close> is absent; it never
  returns 0, whatever the configuration and the conversion.
\<close>

theorem get_max_attempts_never_zero:
  "(map_of (config n) ''retry'' = Some v \<and> py_int v = Inr 0
      \<longrightarrow> get_max_attempts py_int n = Inr 1)
   \<and> (map_of (config n) ''retry'' = None \<longrightarrow> get_max_attempts py_int n = Inr 1)
   \<and> get_max_attempts py_int n \<noteq> Inr 0"
  by (auto simp: get_max_attempts_def split: option.splits sum.splits)

theorem get_max_attempts_never_zero_witness:
  "get_max_attempts (py_int_with (\<lambda>s. Inl ValueError))
       \<lparr>name = ''t1'', internal_name = ''t1'', internal_branch_name = '''',
        node_type = ''task'', config = [(''command'', YStr ''echo''), (''retry'', YInt 0)]\<rparr>
     = Inr 1
   \<and> get_max_attempts (py_int_with (\<lambda>s. Inl ValueError))
       \<lparr>name = ''t1'', internal_name = ''t1'', internal_branch_name = '''',
        node_type = ''task'', config = [(''command'', YStr ''echo'')]\<rparr>
     = Inr 1"
  using get_max_attempts_never_zero
    [of "\<lparr>name = ''t1'', internal_name = ''t1'', internal_branch_name = '''',
         node_type = ''task'', config = [(''command'', YStr ''echo''), (''retry'', YInt 0)]\<rparr>"
        "YInt 0" "py_int_with (\<lambda>s. Inl ValueError)"]
    get_max_attempts_never_zero
    [of "\<lparr>name = ''t1'', internal_name = ''t1'', internal_branch_name = '''',
         node_type = ''task'', config = [(''command'', YStr ''echo'')]\<rparr>"
        "YInt 0" "py_int_with (\<lambda>s. Inl ValueError)"]
  by simp

section \<open>Map placeholders\<close>

text \<open>
  Claim C8, as amended. For every name and every map variable whose iteration values are
  strings, the keys are taken in insertion order, and for each key the leftmost
  placeholder of the name as it stands then is replaced by the key's value if the name
  still has a placeholder; a key that finds no placeholder leaves the name as it is. An
  empty map variable returns the name.
\<close>

theorem resolve_map_placeholders_leftmost:
  "resolve_map_placeholders nm [] = Inr nm
   \<and> (MAP_PLACEHOLDER \<notin> set pre \<longrightarrow>
        resolve_map_placeholders (pre @ MAP_PLACEHOLDER # post) ((k, YStr v) # map_variable)
          = resolve_map_placeholders (pre @ v @ post) map_variable)
   \<and> (MAP_PLACEHOLDER \<notin> set nm \<longrightarrow>
        resolve_map_placeholders nm ((k, YStr v) # map_variable)
          = resolve_map_placeholders nm map_variable)"
  by (simp add: replace_first_leftmost replace_first_absent)

theorem resolve_map_placeholders_leftmost_witness:
  "resolve_map_placeholders ''a.%.b.%'' [(''i'', YStr ''x''), (''j'', YStr ''y'')]
     = Inr ''a.x.b.y''
   \<and> resolve_map_placeholders ''a.x.b.y'' [(''j'', YStr ''y'')] = Inr ''a.x.b.y''"
proof -
  have p: "MAP_PLACEHOLDER \<notin> set ''a.''" "MAP_PLACEHOLDER \<notin> set ''a.x.b.''"
    "MAP_PLACEHOLDER \<notin> set ''a.x.b.y''"
    by (simp_all add: MAP_PLACEHOLDER_def)
  have "resolve_map_placeholders (''a.'' @ MAP_PLACEHOLDER # ''.b.%'')
            [(''i'', YStr ''x''), (''j'', YStr ''y'')]
          = resolve_map_placeholders (''a.'' @ ''x'' @ ''.b.%'') [(''j'', YStr ''y'')]"
    using resolve_map_placeholders_leftmost
      [of "''a.x.b.y''" "''a.''" "''.b.%''" "''i''" "''x''" "[(''j'', YStr ''y'')]"] p
    by blast
  moreover have "resolve_map_placeholders (''a.x.b.'' @ MAP_PLACEHOLDER # [])
            [(''j'', YStr ''y'')]
          = resolve_map_placeholders (''a.x.b.'' @ ''y'' @ []) []"
    using resolve_map_placeholders_leftmost
      [of "''a.x.b.y''" "''a.x.b.''" "[]" "''j''" "''y''" "[]"] p
    by blast
  moreover have "resolve_map_placeholders ''a.x.b.y'' [(''j'', YStr ''y'')]
          = resolve_map_placeholders ''a.x.b.y'' []"
    using resolve_map_placeholders_leftmost
      [of "''a.x.b.y''" "''a.''" "[]" "''j''" "''y''" "[]"] p
    by blast
  ultimately show ?thesis
    by (simp add: MAP_PLACEHOLDER_def)
qed

text \<open>
  The claim as stated fails where the map variable has more keys than the name has
  placeholders: the second key replaces nothing.
\<close>

theorem resolve_map_placeholders_counterexample:
  "resolve_map_placeholders ''a.%'' [(''i'', YStr ''x''), (''j'', YStr ''y'')] = Inr ''a.x''"
  by (simp add: MAP_PLACEHOLDER_def)

section \<open>Status and next node\<close>

text \<open>
  Claim C3. For a node \<open>n\<close> whose Step Log the store returns,
  \<open>get_status_and_next_node_name\<close> returns the status of that Step Log together with the
  next node name: for a status other than \<open>FAIL\<close>, the \<open>next\<close> of the node's
  configuration (\<open>None\<close> when it has none); for \<open>FAIL\<close>, the \<open>on_failure\<close> of the
  configuration when it is set (present and not empty), and otherwise the name of the
  graph's fail node.
\<close>

theorem get_status_and_next_node_name_routes:
  assumes "get_step_log_name n map_variable = Inr nm"
    and "get_step_log (run_log_store ex) nm (ex_run_id ex) = Inr sl"
  shows "(step_status sl \<noteq> FAIL \<longrightarrow>
            get_status_and_next_node_name ex n dag map_variable
              = Inr (step_status sl,
                     case map_of (config n) ''next'' of Some v \<Rightarrow> v | None \<Rightarrow> YNone))
       \<and> (step_status sl = FAIL \<and> get_fail_node dag = Inr fail_node \<longrightarrow>
            get_status_and_next_node_name ex n dag map_variable
              = Inr (FAIL,
                     case map_of (config n) ''on_failure'' of
                       Some v \<Rightarrow> if truthy v then v else YStr (name fail_node)
                     | None \<Rightarrow> YStr (name fail_node)))"
  using assms
  by (auto simp: get_status_and_next_node_name_def get_next_node_def is_terminal_node_def
                 get_on_failure_node_def split: option.splits)

theorem get_status_and_next_node_name_routes_witness:
  "get_status_and_next_node_name
       (executor_with [run_log_with ''run2'' ''hash1'' [step_t1 FAIL]] None)
       node_t1 example_dag [] = Inr (FAIL, YStr ''handler'')
   \<and> get_status_and_next_node_name
       (executor_with [run_log_with ''run2'' ''hash1'' [step_t1 FAIL]] None)
       (node_t1\<lparr>config := [(''next'', YStr ''success'')]\<rparr>) example_dag []
       = Inr (FAIL, YStr ''fail'')
   \<and> get_status_and_next_node_name
       (executor_with [run_log_with ''run2'' ''hash1'' [step_t1 SUCCESS]] None)
       node_t1 example_dag [] = Inr (SUCCESS, YStr ''success'')"
proof -
  have nm: "get_step_log_name node_t1 [] = Inr ''t1''"
    "get_step_log_name (node_t1\<lparr>config := [(''next'', YStr ''success'')]\<rparr>) [] = Inr ''t1''"
    by (simp_all add: get_step_log_name_def node_t1_def)
  have sl: "get_step_log (run_log_store (executor_with [run_log_with ''run2'' ''hash1'' [step_t1 st]] None))
              ''t1'' (ex_run_id (executor_with [run_log_with ''run2'' ''hash1'' [step_t1 st]] None))
            = Inr (step_t1 st)" for st
    by (simp add: executor_with_def run_log_with_def get_step_log_def get_run_log_by_id_def
                  search_step_by_internal_name_def step_t1_def create_step_log_def)
  have fl: "get_fail_node example_dag = Inr node_fail"
    by (simp add: get_fail_node_def example_dag_def node_t1_def node_handler_def
          node_success_def node_fail_def)
  show ?thesis
    using get_status_and_next_node_name_routes [OF nm(1) sl, of FAIL example_dag node_fail]
          get_status_and_next_node_name_routes [OF nm(2) sl, of FAIL example_dag node_fail]
          get_status_and_next_node_name_routes [OF nm(1) sl, of SUCCESS example_dag node_fail]
          fl
    by (simp add: step_t1_def node_t1_def node_fail_def)
qed

section \<open>Fail node\<close>

text \<open>
  Claim C7. Every execution of a fail node returns an Attempt Log of status \<open>SUCCESS\<close>,
  and the enclosing branch or run log, the one the store returns under the node's
  effective branch name, has status \<open>FAIL\<close> in the store afterwards.
\<close>

theorem fail_node_execute_sets_fail:
  "attempt_status (fst (fail_node_execute ex n mock_flag map_variable)) = SUCCESS
   \<and> (get_branch_log_name n map_variable = Inr nm
        \<and> get_branch_log (run_log_store ex) nm (ex_run_id ex) = Inr l \<longrightarrow>
      get_branch_log (run_log_store (snd (fail_node_execute ex n mock_flag map_variable)))
          nm (ex_run_id ex) = Inr (set_log_status FAIL l))"
proof (intro conjI impI)
  show "attempt_status (fst (fail_node_execute ex n mock_flag map_variable)) = SUCCESS"
    by (simp add: fail_node_execute_def Let_def)
next
  assume a: "get_branch_log_name n map_variable = Inr nm
        \<and> get_branch_log (run_log_store ex) nm (ex_run_id ex) = Inr l"
  then obtain store' where
    "add_branch_log (run_log_store ex) (set_log_status FAIL l) (ex_run_id ex) = Inr store'"
    "get_branch_log store' nm (ex_run_id ex) = Inr (set_log_status FAIL l)"
    using get_branch_log_set_status by blast
  with a show "get_branch_log (run_log_store (snd (fail_node_execute ex n mock_flag map_variable)))
          nm (ex_run_id ex) = Inr (set_log_status FAIL l)"
    by (simp add: fail_node_execute_def Let_def set_enclosing_log_status_def)
qed

theorem fail_node_execute_sets_fail_witness:
  "attempt_status (fst (fail_node_execute
       (executor_with [run_log_with ''run2'' ''hash1'' []] None) node_fail False [])) = SUCCESS
   \<and> get_branch_log (run_log_store (snd (fail_node_execute
       (executor_with [run_log_with ''run2'' ''hash1'' []] None) node_fail False [])))
       [] ''run2''
     = Inr (IsRunLog ((run_log_with ''run2'' ''hash1'' [])\<lparr>run_status := FAIL\<rparr>))"
proof -
  have nm: "get_branch_log_name node_fail [] = Inr []"
    by (simp add: get_branch_log_name_def node_fail_def)
  have bl: "get_branch_log (run_log_store (executor_with [run_log_with ''run2'' ''hash1'' []] None))
              [] (ex_run_id (executor_with [run_log_with ''run2'' ''hash1'' []] None))
            = Inr (IsRunLog (run_log_with ''run2'' ''hash1'' []))"
    by (simp add: executor_with_def run_log_with_def get_branch_log_def get_run_log_by_id_def)
  show ?thesis
    using fail_node_execute_sets_fail
      [of "executor_with [run_log_with ''run2'' ''hash1'' []] None" node_fail False "[]"
          "[]" "IsRunLog (run_log_with ''run2'' ''hash1'' [])"] nm bl
    by (simp add: executor_with_def)
qed

section \<open>Re-run against a changed DAG\<close>

text \<open>
  Claim C9. When a pipeline is started with \<open>use_cached\<close> (or \<open>use_cached_force\<close>) and
  the previous Run Log has a \<open>dag_hash\<close> different from the current one, the execution
  fails with the mismatch error whatever the traversal would have done, unless
  \<open>use_cached_force\<close> is true, in which case the traversal runs with the previous Run Log
  attached.
\<close>

theorem execute_dag_hash_mismatch:
  assumes "use_cached \<or> use_cached_force"
    and "get_run_log_by_id (run_log_store mode_executor) re_run_id = Inr prev"
    and "dag_hash prev \<noteq> ex_dag_hash mode_executor"
  shows "(\<not> use_cached_force \<longrightarrow>
            execute traverse mode_executor re_run_id use_cached use_cached_force
              = Inl (Exception dag_hash_message))
       \<and> (use_cached_force \<longrightarrow>
            execute traverse mode_executor re_run_id use_cached use_cached_force
              = traverse (mode_executor\<lparr>previous_run_log := Some prev\<rparr>))"
  using assms by (auto simp: execute_def)

theorem execute_dag_hash_mismatch_witness:
  "execute (\<lambda>ex. Inr ex) (executor_with [run_log_with ''run1'' ''hash0'' [step_t1 SUCCESS]] None)
       ''run1'' True False
     = Inl (Exception dag_hash_message)
   \<and> execute (\<lambda>ex. Inr ex) (executor_with [run_log_with ''run1'' ''hash0'' [step_t1 SUCCESS]] None)
       ''run1'' True True
     = Inr (executor_with [run_log_with ''run1'' ''hash0'' [step_t1 SUCCESS]]
              (Some (run_log_with ''run1'' ''hash0'' [step_t1 SUCCESS])))"
proof -
  have g: "get_run_log_by_id
             (run_log_store (executor_with [run_log_with ''run1'' ''hash0'' [step_t1 SUCCESS]] None))
             ''run1'' = Inr (run_log_with ''run1'' ''hash0'' [step_t1 SUCCESS])"
    by (simp add: executor_with_def run_log_with_def get_run_log_by_id_def)
  have h: "dag_hash (run_log_with ''run1'' ''hash0'' [step_t1 SUCCESS])
             \<noteq> ex_dag_hash (executor_with [run_log_with ''run1'' ''hash0'' [step_t1 SUCCESS]] None)"
    by (simp add: executor_with_def run_log_with_def)
  have t: "True \<or> False" "True \<or> True" by simp_all
  show ?thesis
    using execute_dag_hash_mismatch [OF t(1) g h, of "\<lambda>ex. Inr ex"]
          execute_dag_hash_mismatch [OF t(2) g h, of "\<lambda>ex. Inr ex"]
    by (simp add: executor_with_def)
qed

section \<open>Reconciliation of composite steps\<close>

text \<open>
  Claim C2, as amended. For every composite step (parallel, map, dag) whose
  \<open>execute_as_graph\<close> completes, the status of its Step Log in the store is \<open>SUCCESS\<close>
  if and only if no child Branch Log is \<open>FAIL\<close> and none is \<open>PROCESSING\<close> (for children
  that are \<open>SUCCESS\<close>, \<open>FAIL\<close> or \<open>PROCESSING\<close>: if and only if every child is
  \<open>SUCCESS\<close>); it is \<open>FAIL\<close> if and only if some child Branch Log is \<open>FAIL\<close>, whatever
  the status of the others; and it is \<open>PROCESSING\<close> otherwise.
\<close>

theorem composite_step_reconciled:
  "(parallel_execute_as_graph run_branches pn ex mv = Inr ex' \<longrightarrow>
      (\<exists>sts nm sl.
           child_statuses (run_log_store ex') (ex_run_id ex') mv (map fst (par_branches pn)) = Inr sts
         \<and> get_step_log_name (par_node pn) mv = Inr nm
         \<and> get_step_log (run_log_store ex') nm (ex_run_id ex') = Inr sl
         \<and> reconciled sts (step_status sl)))
   \<and> (map_execute_as_graph py_str run_iterations mn ex mv = Inr ex' \<longrightarrow>
      (\<exists>vs ex1 mv' ex2 sts nm sl.
           get_iterate_on mn ex = Inr vs
         \<and> run_iterations vs mv ex1 = Inr (mv', ex2)
         \<and> child_statuses (run_log_store ex') (ex_run_id ex') mv'
              (map (\<lambda>v. internal_name (map_base mn) @ ''.'' @ py_str v) vs) = Inr sts
         \<and> get_step_log_name (map_base mn) mv' = Inr nm
         \<and> get_step_log (run_log_store ex') nm (ex_run_id ex') = Inr sl
         \<and> reconciled sts (step_status sl)))
   \<and> (dag_execute_as_graph run_branch dn ex mv = Inr ex' \<longrightarrow>
      (\<exists>sts nm sl.
           child_statuses (run_log_store ex') (ex_run_id ex') mv
              [internal_name (dag_base dn) @ ''.'' @ DAG_BRANCH_NAME] = Inr sts
         \<and> get_step_log_name (dag_base dn) mv = Inr nm
         \<and> get_step_log (run_log_store ex') nm (ex_run_id ex') = Inr sl
         \<and> reconciled sts (step_status sl)))
   \<and> (reconciled sts0 st0 \<longrightarrow>
        (st0 = SUCCESS \<longleftrightarrow> (\<forall>s \<in> set sts0. s \<noteq> FAIL \<and> s \<noteq> PROCESSING))
      \<and> (st0 = FAIL \<longleftrightarrow> (\<exists>s \<in> set sts0. s = FAIL))
      \<and> (st0 \<noteq> SUCCESS \<and> st0 \<noteq> FAIL \<longrightarrow> st0 = PROCESSING)
      \<and> (TRIGGERED \<notin> set sts0 \<longrightarrow> (st0 = SUCCESS \<longleftrightarrow> (\<forall>s \<in> set sts0. s = SUCCESS))))"
proof (intro conjI impI)
  assume r: "reconciled sts0 st0"
  show "st0 = SUCCESS \<longleftrightarrow> (\<forall>s \<in> set sts0. s \<noteq> FAIL \<and> s \<noteq> PROCESSING)"
    using r by (auto simp: reconciled_def)
  show "st0 = FAIL \<longleftrightarrow> (\<exists>s \<in> set sts0. s = FAIL)"
    using r by (auto simp: reconciled_def)
  show "st0 = PROCESSING" if "st0 \<noteq> SUCCESS \<and> st0 \<noteq> FAIL"
    using r that by (auto simp: reconciled_def)
  show "st0 = SUCCESS \<longleftrightarrow> (\<forall>s \<in> set sts0. s = SUCCESS)" if t: "TRIGGERED \<notin> set sts0"
  proof
    assume "st0 = SUCCESS"
    with r have n: "FAIL \<notin> set sts0" "PROCESSING \<notin> set sts0" by (auto simp: reconciled_def)
    show "\<forall>s \<in> set sts0. s = SUCCESS"
    proof
      fix s assume "s \<in> set sts0"
      with n t show "s = SUCCESS" by (cases s) auto
    qed
  next
    assume "\<forall>s \<in> set sts0. s = SUCCESS"
    then have "FAIL \<notin> set sts0" "PROCESSING \<notin> set sts0" by auto
    with r show "st0 = SUCCESS" by (auto simp: reconciled_def)
  qed
qed (rule parallel_reconciled map_reconciled dag_reconciled; assumption)+

theorem composite_step_reconciled_witness:
  "parallel_execute_as_graph run_a_fails example_parallel
       (executor_with [run_log_with ''run2'' ''hash1'' [step_par PROCESSING]] None) []
     = Inr example_parallel_done
   \<and> (\<exists>sts nm sl.
           child_statuses (run_log_store example_parallel_done) (ex_run_id example_parallel_done) []
              (map fst (par_branches example_parallel)) = Inr sts
         \<and> get_step_log_name (par_node example_parallel) [] = Inr nm
         \<and> get_step_log (run_log_store example_parallel_done) nm
              (ex_run_id example_parallel_done) = Inr sl
         \<and> reconciled sts (step_status sl))
   \<and> reconciled [SUCCESS, SUCCESS] SUCCESS"
proof -
  have e: "parallel_execute_as_graph run_a_fails example_parallel
       (executor_with [run_log_with ''run2'' ''hash1'' [step_par PROCESSING]] None) []
     = Inr example_parallel_done"
    by (simp add: parallel_execute_as_graph_def example_parallel_def run_a_fails_def
          executor_with_def run_log_with_def step_par_def create_step_log_def
          create_branch_log_def put_run_log_def get_run_log_by_id_def
          fail_node_execute_def set_enclosing_log_status_def get_branch_log_name_def
          get_branch_log_def fail_in_a_def Let_def update_step_status_def collate_status_def
          get_step_log_def search_step_by_internal_name_def add_step_log_def
          example_parallel_done_def)
  have r: "reconciled [SUCCESS, SUCCESS] SUCCESS"
    by (simp add: reconciled_def)
  show ?thesis
    using e r composite_step_reconciled
      [of run_a_fails example_parallel
          "executor_with [run_log_with ''run2'' ''hash1'' [step_par PROCESSING]] None" "[]"
          example_parallel_done]
    by blast
qed

text \<open>
  The claim as stated fails where one child Branch Log is \<open>FAIL\<close> and another is still
  \<open>PROCESSING\<close>: the step is \<open>FAIL\<close>, not left \<open>PROCESSING\<close>.
\<close>

theorem composite_step_counterexample:
  "parallel_execute_as_graph run_a_fails example_parallel
       (executor_with [run_log_with ''run2'' ''hash1'' [step_par PROCESSING]] None) []
     = Inr example_parallel_done
   \<and> child_statuses (run_log_store example_parallel_done) ''run2'' [] [''par.a'', ''par.b'']
     = Inr [FAIL, PROCESSING]
   \<and> get_step_log (run_log_store example_parallel_done) ''par'' ''run2'' = Inr (step_par FAIL)"
  by (simp add: parallel_execute_as_graph_def example_parallel_def run_a_fails_def
        executor_with_def run_log_with_def step_par_def create_step_log_def
        create_branch_log_def put_run_log_def get_run_log_by_id_def
        fail_node_execute_def set_enclosing_log_status_def get_branch_log_name_def
        get_branch_log_def fail_in_a_def Let_def update_step_status_def collate_status_def
        get_step_log_def search_step_by_internal_name_def add_step_log_def
        example_parallel_done_def)

section \<open>Validation of composite nodes\<close>

text \<open>
  Claim C6, as amended. Constructing a map node whose configuration lacks \<open>iterate_on\<close>
  or lacks \<open>iterate_as\<close> fails, and so does constructing a parallel node whose
  \<open>branches\<close> mapping is empty. A map node whose \<open>iterate_on\<close> names a parameter whose
  value is not a list fails when it is executed (in \<open>execute_as_graph\<close>), before any
  Branch Log is created and whatever running the branches would do.
\<close>

theorem composite_node_validation:
  "(map_of cfg ''iterate_on'' = None \<longrightarrow>
      map_node_init create_graph nm iname cfg ibn
        = Inl (Exception ''A node type of map requires a parameter iterate_on, please define it in the config''))
   \<and> (map_of cfg ''iterate_on'' = Some v \<and> truthy v \<and> map_of cfg ''iterate_as'' = None \<longrightarrow>
      map_node_init create_graph nm iname cfg ibn
        = Inl (Exception ''A node type of map requires a parameter iterate_as, please define it in the config''))
   \<and> (map_of cfg ''iterate_on'' = None \<or> map_of cfg ''iterate_as'' = None \<longrightarrow>
      isl (map_node_init create_graph nm iname cfg ibn))
   \<and> (map_of cfg ''branches'' = Some (YDict []) \<longrightarrow>
      parallel_node_init create_graph nm iname cfg ibn
        = Inl (Exception ''A parallel node should have branches''))
   \<and> (iterate_on mn = YStr k
        \<and> get_run_log_by_id (run_log_store ex) (ex_run_id ex) = Inr run_log
        \<and> parameters run_log k = Some p \<and> \<not> is_list p \<longrightarrow>
      map_execute_as_graph py_str run_iterations mn ex mv
        = Inl (Exception ''Only list is allowed as a valid iterator type''))"
proof (intro conjI impI)
  assume "iterate_on mn = YStr k
        \<and> get_run_log_by_id (run_log_store ex) (ex_run_id ex) = Inr run_log
        \<and> parameters run_log k = Some p \<and> \<not> is_list p"
  then show "map_execute_as_graph py_str run_iterations mn ex mv
        = Inl (Exception ''Only list is allowed as a valid iterator type'')"
    by (cases p) (simp_all add: map_execute_as_graph_def get_iterate_on_def)
qed (auto simp: map_node_init_def parallel_node_init_def get_sub_graphs_def config_get_def Let_def)

theorem composite_node_validation_witness:
  "map_node_init (\<lambda>c b. Inr b) ''m'' ''m'' [(''iterate_as'', YStr ''x''), (''branch'', YDict [])] []
     = Inl (Exception ''A node type of map requires a parameter iterate_on, please define it in the config'')
   \<and> map_node_init (\<lambda>c b. Inr b) ''m'' ''m'' [(''iterate_on'', YStr ''xs''), (''branch'', YDict [])] []
     = Inl (Exception ''A node type of map requires a parameter iterate_as, please define it in the config'')
   \<and> parallel_node_init (\<lambda>c b. Inr b) ''par'' ''par'' [(''branches'', YDict [])] []
     = Inl (Exception ''A parallel node should have branches'')
   \<and> map_execute_as_graph (\<lambda>v. ''v'') (\<lambda>vs mv ex. Inr (mv, ex)) example_map executor_xs_not_list []
     = Inl (Exception ''Only list is allowed as a valid iterator type'')"
proof -
  have g: "get_run_log_by_id (run_log_store executor_xs_not_list) (ex_run_id executor_xs_not_list)
      = Inr ((run_log_with ''run2'' ''hash1'' [])\<lparr>parameters := [''xs'' \<mapsto> YStr ''abc'']\<rparr>)"
    by (simp add: executor_xs_not_list_def executor_with_def run_log_with_def get_run_log_by_id_def)
  have 1: "map_node_init (\<lambda>c b. Inr b) ''m'' ''m''
              [(''iterate_as'', YStr ''x''), (''branch'', YDict [])] []
     = Inl (Exception ''A node type of map requires a parameter iterate_on, please define it in the config'')"
    using composite_node_validation
        [where cfg = "[(''iterate_as'', YStr ''x''), (''branch'', YDict [])]"
           and create_graph = "\<lambda>c b. Inr b" and nm = "''m''" and iname = "''m''" and ibn = "[]",
         THEN conjunct1]
    by simp
  have 2: "map_node_init (\<lambda>c b. Inr b) ''m'' ''m''
              [(''iterate_on'', YStr ''xs''), (''branch'', YDict [])] []
     = Inl (Exception ''A node type of map requires a parameter iterate_as, please define it in the config'')"
    using composite_node_validation
        [where cfg = "[(''iterate_on'', YStr ''xs''), (''branch'', YDict [])]"
           and v = "YStr ''xs''"
           and create_graph = "\<lambda>c b. Inr b" and nm = "''m''" and iname = "''m''" and ibn = "[]",
         THEN conjunct2, THEN conjunct1]
    by simp
  have 3: "parallel_node_init (\<lambda>c b. Inr b) ''par'' ''par'' [(''branches'', YDict [])] []
     = Inl (Exception ''A parallel node should have branches'')"
    using composite_node_validation
        [where cfg = "[(''branches'', YDict [])]"
           and create_graph = "\<lambda>c b. Inr b" and nm = "''par''" and iname = "''par''" and ibn = "[]",
         THEN conjunct2, THEN conjunct2, THEN conjunct2, THEN conjunct1]
    by simp
  have 4: "map_execute_as_graph (\<lambda>v. ''v'') (\<lambda>vs mv ex. Inr (mv, ex)) example_map
             executor_xs_not_list []
     = Inl (Exception ''Only list is allowed as a valid iterator type'')"
    using composite_node_validation
        [where mn = example_map and k = "''xs''" and ex = executor_xs_not_list
           and run_log = "(run_log_with ''run2'' ''hash1'' [])\<lparr>parameters := [''xs'' \<mapsto> YStr ''abc'']\<rparr>"
           and p = "YStr ''abc''" and py_str = "\<lambda>v. ''v''"
           and run_iterations = "\<lambda>vs mv ex. Inr (mv, ex)" and mv = "[]",
         THEN conjunct2, THEN conjunct2, THEN conjunct2, THEN conjunct2] g
    by (simp add: example_map_def run_log_with_def)
  show ?thesis using 1 2 3 4 by simp
qed

text \<open>
  The claim as stated fails for the list check: the map node over the parameter \<open>xs\<close>
  is constructed although \<open>xs\<close> is not a list, and fails only when it is executed.
\<close>

theorem composite_node_validation_counterexample:
  "map_node_init (\<lambda>c b. Inr b) ''m'' ''m'' example_map_config [] = Inr example_map
   \<and> parameters ((run_log_with ''run2'' ''hash1'' [])\<lparr>parameters := [''xs'' \<mapsto> YStr ''abc'']\<rparr>) ''xs''
       = Some (YStr ''abc'')
   \<and> map_execute_as_graph (\<lambda>v. ''v'') (\<lambda>vs mv ex. Inr (mv, ex)) example_map executor_xs_not_list []
       = Inl (Exception ''Only list is allowed as a valid iterator type'')"
  by (simp add: map_node_init_def example_map_config_def example_map_def config_get_def
        MAP_PLACEHOLDER_def map_execute_as_graph_def get_iterate_on_def executor_xs_not_list_def
        executor_with_def run_log_with_def get_run_log_by_id_def)

section \<open>The retry loop\<close>

text \<open>
  When the maximum number of attempts of a task node is positive and its execution by
  \<open>execute_node\<close> completes, the Attempt Logs appended to its Step Log are at most
  \<open>get_max_attempts\<close> many; the Step Log status is \<open>SUCCESS\<close> if and only if some
  appended attempt is \<open>SUCCESS\<close> and the last appended one is; and if all
  \<open>max_attempts\<close> attempts fail the Step Log status is \<open>FAIL\<close> (a status other than
  \<open>SUCCESS\<close> is \<open>FAIL\<close>, after exactly \<open>max_attempts\<close> failed attempts).
\<close>

lemma execute_node_attempts_positive:
  assumes t: "node_type n = ''task''"
    and m: "get_max_attempts (builtin_int co) n = Inr max_attempts" "0 < max_attempts"
    and e: "execute_node co n mv ex = Inr ex'"
  shows "\<exists>nm sl sl' new.
           get_step_log_name n mv = Inr nm
         \<and> get_step_log (run_log_store ex) nm (ex_run_id ex) = Inr sl
         \<and> get_step_log (run_log_store ex') nm (ex_run_id ex') = Inr sl'
         \<and> attempts sl' = attempts sl @ new
         \<and> int (length new) \<le> max_attempts
         \<and> (step_status sl' = SUCCESS \<longleftrightarrow>
               (\<exists>x \<in> set new. attempt_status x = SUCCESS) \<and> attempt_status (last new) = SUCCESS)
         \<and> ((\<forall>x \<in> set new. attempt_status x = FAIL) \<and> int (length new) = max_attempts
               \<longrightarrow> step_status sl' = FAIL)
         \<and> (step_status sl' \<noteq> SUCCESS \<longrightarrow>
               step_status sl' = FAIL \<and> int (length new) = max_attempts
               \<and> (\<forall>x \<in> set new. attempt_status x = FAIL))"
proof -
  from e m(1) obtain nm sl ps dcg sl1 sl2 ex2 dcp sl3 store' where
    a: "get_step_log_name n mv = Inr nm"
       "get_step_log (run_log_store ex) nm (ex_run_id ex) = Inr sl"
       "sync_catalog co n sl ''get'' None = Inr (dcg, sl1)"
       "retry_loop co n mv (mock sl1) max_attempts 0 sl1 ex = (sl2, ex2)"
       "sync_catalog co n sl2 ''put'' dcg = Inr (dcp, sl3)"
       "add_step_log (run_log_store ex2) sl3 (ex_run_id ex2) = Inr store'"
       "ex' = ex2\<lparr>run_log_store := store'\<rparr>"
    by (auto simp: execute_node_def split: sum.splits prod.splits)
  from get_step_log_run_log[OF a(2)] obtain rl where
    rl: "get_run_log_by_id (run_log_store ex) (ex_run_id ex) = Inr rl" by blast
  from retry_loop_task[OF t rl a(4)] m(2) obtain new where
    new: "attempts sl2 = attempts sl1 @ new" "int (length new) \<le> max_attempts"
      "step_status sl2 = SUCCESS \<or> step_status sl2 = FAIL"
      "step_status sl2 = SUCCESS \<longleftrightarrow> attempt_status (last new) = SUCCESS"
      "step_status sl2 = FAIL \<longrightarrow>
         int (length new) = max_attempts \<and> (\<forall>x \<in> set new. attempt_status x = FAIL)"
      "new \<noteq> []" "step_internal_name sl2 = step_internal_name sl1"
      "ex_run_id ex2 = ex_run_id ex"
    by auto
  note s1 = sync_catalog_Inr[OF a(3)] and s3 = sync_catalog_Inr[OF a(5)]
  have nm: "step_internal_name sl3 = nm"
    using s1 s3 new(7) get_step_log_internal_name[OF a(2)] by simp
  have g: "get_step_log (run_log_store ex') nm (ex_run_id ex') = Inr sl3"
    using get_step_log_add_step_log[OF a(6), of nm] nm a(7) by simp
  have l: "last new \<in> set new" using new(6) by simp
  have st: "step_status sl3 = step_status sl2" "attempts sl3 = attempts sl @ new"
    using s1 s3 new(1) by simp_all
  show ?thesis
  proof (rule exI[of _ nm], rule exI[of _ sl], rule exI[of _ sl3], rule exI[of _ new],
         intro conjI impI)
    show "step_status sl3 = SUCCESS \<longleftrightarrow>
            (\<exists>x \<in> set new. attempt_status x = SUCCESS) \<and> attempt_status (last new) = SUCCESS"
      using st new(4) l by auto
    show "step_status sl3 = FAIL"
      if "(\<forall>x \<in> set new. attempt_status x = FAIL) \<and> int (length new) = max_attempts"
      using that st new(3,4) l by auto
    show "step_status sl3 = FAIL" if "step_status sl3 \<noteq> SUCCESS"
      using that st new(3) by auto
    show "int (length new) = max_attempts" if "step_status sl3 \<noteq> SUCCESS"
      using that st new(3,5) by auto
    show "\<forall>x \<in> set new. attempt_status x = FAIL" if "step_status sl3 \<noteq> SUCCESS"
      using that st new(3,5) by auto
  qed (use a(1,2) g new(2) st in auto)
qed


lemma execute_node_attempts_positive_example:
  "execute_node example_collaborators node_t1_retry []
       (executor_with [run_log_with ''run2'' ''hash1'' [step_t1 PROCESSING]] None)
     = Inr (executor_with [run_log_with ''run2'' ''hash1'' [step_t1_retried]] None)
   \<and> (\<exists>nm sl sl' new.
           get_step_log_name node_t1_retry [] = Inr nm
         \<and> get_step_log [run_log_with ''run2'' ''hash1'' [step_t1 PROCESSING]] nm ''run2'' = Inr sl
         \<and> get_step_log [run_log_with ''run2'' ''hash1'' [step_t1_retried]] nm ''run2'' = Inr sl'
         \<and> attempts sl' = attempts sl @ new
         \<and> int (length new) \<le> 3
         \<and> (step_status sl' = SUCCESS \<longleftrightarrow>
               (\<exists>x \<in> set new. attempt_status x = SUCCESS) \<and> attempt_status (last new) = SUCCESS))"
proof -
  have t: "node_type node_t1_retry = ''task''"
    by (simp add: node_t1_retry_def node_t1_def)
  have m: "get_max_attempts (builtin_int example_collaborators) node_t1_retry = Inr 3"
    by (simp add: get_max_attempts_def example_collaborators_def node_t1_retry_def node_t1_def)
  have p: "(0::int) < 3" by simp
  have e: "execute_node example_collaborators node_t1_retry []
       (executor_with [run_log_with ''run2'' ''hash1'' [step_t1 PROCESSING]] None)
     = Inr (executor_with [run_log_with ''run2'' ''hash1'' [step_t1_retried]] None)"
    by (simp add: execute_node_def example_collaborators_def node_t1_retry_def node_t1_def
        get_max_attempts_def get_step_log_name_def executor_with_def run_log_with_def
        get_step_log_def get_run_log_by_id_def search_step_by_internal_name_def step_t1_def
        create_step_log_def get_parameters_def sync_catalog_def retry_loop.simps
        node_execute_def task_node_execute_def create_attempt_log_def after_exception_def
        set_parameters_def put_run_log_def add_step_log_def step_t1_retried_def Let_def)
  from execute_node_attempts_positive[OF t m p e]
  show ?thesis using e by (simp add: executor_with_def) blast
qed

text \<open>
  Claim C1. The claim bounds the Attempt Logs that \<open>execute_node\<close> appends by
  \<open>get_max_attempts\<close> and has the step end \<open>SUCCESS\<close> or \<open>FAIL\<close>. For a task whose
  \<open>retry\<close> is \<open>-1\<close> the code does neither: \<open>get_max_attempts\<close> returns \<open>-1\<close> (its
  \<^verbatim>\<open>or 1\<close> replaces only \<open>0\<close>), the body of \<^verbatim>\<open>while attempts < max_attempts\<close> is never
  entered, and \<open>execute_node\<close> returns with no Attempt Log appended (\<open>0\<close> is not at most
  \<open>-1\<close>) and the Step Log still \<open>PROCESSING\<close>. The first run of the pipeline
  \<open>t1 \<rightarrow> success\<close> then follows \<open>next\<close> and ends with the run \<open>SUCCESS\<close>, although the
  command of \<open>t1\<close> was never run.
\<close>

theorem execute_node_negative_retry:
  "get_max_attempts (builtin_int example_collaborators) node_t1_negative_retry = Inr (- 1)
   \<and> execute_node example_collaborators node_t1_negative_retry []
        (executor_with [run_log_with ''run2'' ''hash1'' [step_t1 PROCESSING]] None)
      = Inr (executor_with [run_log_with ''run2'' ''hash1'' [step_t1 PROCESSING]] None)
   \<and> attempts (step_t1 PROCESSING) = []
   \<and> execute_graph (local_executor example_collaborators) negative_retry_dag []
        first_run_executor = Some (Inr negative_retry_done)
   \<and> get_step_log (run_log_store negative_retry_done) ''t1'' ''run2'' = Inr step_t1_not_run
   \<and> step_status step_t1_not_run = PROCESSING
   \<and> attempts step_t1_not_run = []
   \<and> map_option run_status (find (\<lambda>rl. run_id rl = ''run2'') (run_log_store negative_retry_done))
        = Some SUCCESS"
proof -
  have m: "get_max_attempts (builtin_int example_collaborators) node_t1_negative_retry
             = Inr (- 1)"
    by (simp add: get_max_attempts_def example_collaborators_def node_t1_negative_retry_def
          node_t1_def)
  have x: "execute_node example_collaborators node_t1_negative_retry []
             (executor_with [run_log_with ''run2'' ''hash1'' [sl]] None)
           = Inr (executor_with [run_log_with ''run2'' ''hash1'' [sl]] None)"
    if "step_internal_name sl = ''t1''" for sl
    using that
    by (simp add: execute_node_def get_max_attempts_def get_step_log_name_def
          node_t1_negative_retry_def
          node_t1_def executor_with_def run_log_with_def get_step_log_def
          get_run_log_by_id_def search_step_by_internal_name_def get_parameters_def
          sync_catalog_def example_collaborators_def retry_loop.simps add_step_log_def
          put_run_log_def Let_def)
  have t: "node_type node_t1_negative_retry = ''task''"
      "internal_name node_t1_negative_retry = ''t1''"
      "get_next_node node_t1_negative_retry = YStr ''success''"
    by (simp_all add: node_t1_negative_retry_def node_t1_def get_next_node_def
          is_terminal_node_def)
  have f1: "execute_from_graph (local_executor example_collaborators) node_t1_negative_retry []
              first_run_executor = Inr negative_retry_after_t1"
    using x[of step_t1_not_run]
    by (simp add: execute_from_graph_def get_step_log_name_def t Let_def
          node_t1_negative_retry_def node_t1_def is_eligible_for_rerun_def
          add_step_log_then_def new_step_log_def create_step_log_def local_executor_def
          example_collaborators_def first_run_executor_def executor_with_def run_log_with_def
          add_step_log_def get_run_log_by_id_def put_run_log_def step_t1_not_run_def
          step_t1_def negative_retry_after_t1_def)
  have f2: "execute_from_graph (local_executor example_collaborators) node_success []
             negative_retry_after_t1 = Inr negative_retry_done"
    by (simp add: execute_from_graph_def get_step_log_name_def node_success_def Let_def
          add_step_log_then_def new_step_log_def create_step_log_def local_executor_def
          example_collaborators_def negative_retry_after_t1_def executor_with_def
          run_log_with_def step_t1_not_run_def step_t1_def
          step_success_def add_step_log_def get_run_log_by_id_def
          put_run_log_def execute_node_def get_max_attempts_def get_step_log_def
          search_step_by_internal_name_def get_parameters_def sync_catalog_def
          retry_loop.simps node_execute_def success_node_execute_def
          set_enclosing_log_status_def get_branch_log_name_def get_branch_log_def
          create_attempt_log_def set_parameters_def negative_retry_done_def
          step_success_executed_def)
  have n1: "get_node_by_value negative_retry_dag (YStr ''t1'') = Inr node_t1_negative_retry"
    by (simp add: get_node_by_value_def get_node_by_name_def negative_retry_dag_def
          node_t1_negative_retry_def node_t1_def)
  have n2: "get_node_by_value negative_retry_dag (YStr ''success'') = Inr node_success"
    by (simp add: get_node_by_value_def get_node_by_name_def negative_retry_dag_def
          node_t1_negative_retry_def node_t1_def node_success_def)
  have g1: "get_step_log (run_log_store negative_retry_after_t1) ''t1'' ''run2''
             = Inr step_t1_not_run"
    by (simp add: negative_retry_after_t1_def executor_with_def run_log_with_def
          get_step_log_def get_run_log_by_id_def search_step_by_internal_name_def
          step_t1_not_run_def step_t1_def create_step_log_def)
  have g2: "get_step_log (run_log_store negative_retry_done) ''t1'' ''run2''
             = Inr step_t1_not_run"
    by (simp add: negative_retry_done_def executor_with_def run_log_with_def
          get_step_log_def get_run_log_by_id_def search_step_by_internal_name_def
          step_t1_not_run_def step_t1_def create_step_log_def)
  have g3: "get_step_log (run_log_store negative_retry_done) ''success'' ''run2''
             = Inr step_success_executed"
    by (simp add: negative_retry_done_def executor_with_def run_log_with_def
          get_step_log_def get_run_log_by_id_def search_step_by_internal_name_def
          step_t1_not_run_def step_t1_def create_step_log_def step_success_executed_def
          step_success_def)
  have s1: "step_status step_t1_not_run = PROCESSING" "attempts step_t1_not_run = []"
    by (simp_all add: step_t1_not_run_def step_t1_def create_step_log_def)
  have s2: "step_status step_success_executed = SUCCESS"
    by (simp add: step_success_executed_def step_success_def)
  have r: "ex_run_id negative_retry_after_t1 = ''run2''"
      "ex_run_id negative_retry_done = ''run2''"
    by (simp_all add: negative_retry_after_t1_def negative_retry_done_def executor_with_def)
  have ts: "node_type node_success = ''success''" "internal_name node_success = ''success''"
    by (simp_all add: node_success_def)
  have l2: "execute_graph_loop (local_executor example_collaborators) negative_retry_dag []
          (YStr ''success'') (YStr ''t1'') negative_retry_after_t1
          = Some (Inr (node_success, negative_retry_done))"
    by (subst execute_graph_loop.simps)
       (simp add: n2 f2 ts r g3 s2 get_status_and_next_node_name_def get_step_log_name_def)
  have l1: "execute_graph_loop (local_executor example_collaborators) negative_retry_dag []
          (YStr ''t1'') YNone first_run_executor
          = Some (Inr (node_success, negative_retry_done))"
    by (subst execute_graph_loop.simps)
       (simp add: n1 f1 t r g1 s1 l2 get_status_and_next_node_name_def get_step_log_name_def)
  have e: "execute_graph (local_executor example_collaborators) negative_retry_dag []
        first_run_executor = Some (Inr negative_retry_done)"
    using l1 g3 s2
    by (simp add: execute_graph_def negative_retry_dag_def get_branch_log_name_def
          node_success_def get_branch_log_def negative_retry_done_def executor_with_def
          get_run_log_by_id_def run_log_with_def get_step_log_def)
  show ?thesis
    using m x[of "step_t1 PROCESSING"] e g2 s1
    by (simp add: step_t1_def create_step_log_def negative_retry_done_def executor_with_def
          run_log_with_def)
qed

section \<open>The re-run gate\<close>

text \<open>
  Claim C4, at a failing input. In a re-run of the example pipeline whose previous run
  succeeded in \<open>t1\<close>, the gate is reached from \<open>execute_from_graph\<close> before the Step
  Log of \<open>t1\<close> is added to the current run: its lookup of that Step Log in the current
  run fails with \<open>StepLogNotFound\<close>, so it neither returns false nor leaves a mocked
  Step Log, and the traversal ends with the error.
\<close>

theorem is_eligible_for_rerun_fresh_run:
  "search_step_by_internal_name previous_run ''t1'' = Inr (step_t1 SUCCESS)
   \<and> is_eligible_for_rerun rerun_executor node_t1 [] = Inl StepLogNotFoundError
   \<and> execute_from_graph (local_executor example_collaborators) node_t1 [] rerun_executor
       = Inl StepLogNotFoundError
   \<and> execute_graph (local_executor example_collaborators) example_dag [] rerun_executor
       = Some (Inl StepLogNotFoundError)"
proof -
  have s: "search_step_by_internal_name previous_run ''t1'' = Inr (step_t1 SUCCESS)"
    by (simp add: search_step_by_internal_name_def previous_run_def run_log_with_def
          step_t1_def create_step_log_def)
  have g: "is_eligible_for_rerun rerun_executor node_t1 [] = Inl StepLogNotFoundError"
    by (simp add: is_eligible_for_rerun_def rerun_executor_def executor_with_def
          get_step_log_name_def node_t1_def get_step_log_def get_run_log_by_id_def
          previous_run_def run_log_with_def search_step_by_internal_name_def step_t1_def
          create_step_log_def)
  have f: "execute_from_graph (local_executor example_collaborators) node_t1 [] rerun_executor
       = Inl StepLogNotFoundError"
  proof -
    have "get_step_log_name node_t1 [] = Inr ''t1''" "node_type node_t1 = ''task''"
      by (simp_all add: get_step_log_name_def node_t1_def)
    then show ?thesis
      by (simp add: execute_from_graph_def g Let_def)
  qed
  have n: "get_node_by_value example_dag (YStr ''t1'') = Inr node_t1"
    by (simp add: get_node_by_value_def get_node_by_name_def example_dag_def node_t1_def)
  have "execute_graph_loop (local_executor example_collaborators) example_dag []
          (YStr ''t1'') YNone rerun_executor = Some (Inl StepLogNotFoundError)"
    by (subst execute_graph_loop.simps) (simp add: n f)
  then have "execute_graph (local_executor example_collaborators) example_dag [] rerun_executor
       = Some (Inl StepLogNotFoundError)"
    by (simp add: execute_graph_def example_dag_def)
  with s g f show ?thesis by simp
qed

section \<open>Re-run of a run that succeeded\<close>




end
